theory Spec2Isabelle
  imports Complex_Main "HOL-Library.Sublist"
begin

section \<open>Sample values\<close>

text \<open>
  \<^verbatim>\<open>FAUSTFLOAT\<close> is the sample type of the optimiser: \<^verbatim>\<open>float\<close>, IEEE binary32, which is what
  the program's own calls (\<^verbatim>\<open>fabsf\<close>, \<^verbatim>\<open>powf\<close>, \<^verbatim>\<open>strtof\<close>, \<^verbatim>\<open>0.f\<close>) are written for. A sample is
  a real number, an infinity or NaN; the finite samples of the program are the reals that
  binary32 represents. Every arithmetic operation computes the exact result and rounds it
  to the nearest binary32 value, ties to even, as \<open>round32\<close> below does: a result too large
  becomes an infinity, a result too small becomes a subnormal number or zero. The sign of
  zero is not represented (\<^verbatim>\<open>iszero\<close> is true of both zeros), and each operation rounds once:
  a multiplication and the subtraction after it are not fused.
\<close>

datatype FAUSTFLOAT = Finite real | PosInf | NegInf | NaN

text \<open>\<open>2\<close> to the power \<open>e\<close>, for an exponent of either sign.\<close>

definition pow2 :: "int \<Rightarrow> real" where
  "pow2 e = (if 0 \<le> e then 2 ^ nat e else 1 / 2 ^ nat (- e))"

text \<open>
  The binary exponent of a magnitude \<open>x\<close>: the largest \<open>e\<close> with \<open>2\<^sup>e \<le> x\<close>, kept within
  the exponents of the normal numbers, \<open>-126\<close> to \<open>127\<close>. It is found by stepping up from
  \<open>0\<close> when \<open>1 \<le> x\<close> and down from \<open>-1\<close> otherwise.
\<close>

function scan_up :: "real \<Rightarrow> int \<Rightarrow> int" where
  "scan_up x e = (if 127 \<le> e \<or> x < pow2 (e + 1) then e else scan_up x (e + 1))"
  by pat_completeness auto
termination
  by (relation "measure (\<lambda>(x, e). nat (127 - e))") auto

function scan_down :: "real \<Rightarrow> int \<Rightarrow> int" where
  "scan_down x e = (if e \<le> - 126 \<or> pow2 e \<le> x then e else scan_down x (e - 1))"
  by pat_completeness auto
termination
  by (relation "measure (\<lambda>(x, e). nat (e + 126))") auto

definition exponent :: "real \<Rightarrow> int" where
  "exponent x = (if 1 \<le> x then scan_up x 0 else scan_down x (- 1))"

text \<open>
  Rounding a non-negative real to the nearest integer, ties to the even one: \<open>f\<close> is the
  integer part and \<open>r\<close> the fraction.
\<close>

definition ties_to_even :: "int \<Rightarrow> real \<Rightarrow> int" where
  "ties_to_even f r =
     (if r < 1 / 2 then f else if 1 / 2 < r then f + 1 else if even f then f else f + 1)"

definition rne :: "real \<Rightarrow> int" where
  "rne x = ties_to_even \<lfloor>x\<rfloor> (x - of_int \<lfloor>x\<rfloor>)"

text \<open>
  The magnitude \<open>a\<close> rounded to a multiple of \<open>2\<^sup>q\<close>. With \<open>q\<close> the exponent less \<open>23\<close> the
  multiple has \<open>24\<close> significant bits, or fewer below \<open>2\<^sup>-\<^sup>1\<^sup>2\<^sup>6\<close>, where the spacing stays
  \<open>2\<^sup>-\<^sup>1\<^sup>4\<^sup>9\<close>.
\<close>

definition quantise :: "int \<Rightarrow> real \<Rightarrow> real" where
  "quantise q a = of_int (rne (a / pow2 q)) * pow2 q"

text \<open>
  A rounded magnitude \<open>v\<close> with its sign. The largest binary32 number is
  \<open>2\<^sup>1\<^sup>2\<^sup>8 - 2\<^sup>1\<^sup>0\<^sup>4\<close>; a magnitude that rounds up to \<open>2\<^sup>1\<^sup>2\<^sup>8\<close> is an infinity.
\<close>

definition overflow :: "bool \<Rightarrow> real \<Rightarrow> FAUSTFLOAT" where
  "overflow negative v =
     (if pow2 128 \<le> v then (if negative then NegInf else PosInf)
      else Finite (if negative then - v else v))"

definition round32 :: "real \<Rightarrow> FAUSTFLOAT" where
  "round32 x =
     (if x = 0 then Finite 0
      else overflow (x < 0) (quantise (exponent \<bar>x\<bar> - 23) \<bar>x\<bar>))"

text \<open>\<^verbatim>\<open>a - b\<close>\<close>

fun fsub :: "FAUSTFLOAT \<Rightarrow> FAUSTFLOAT \<Rightarrow> FAUSTFLOAT" where
  "fsub (Finite a) (Finite b) = round32 (a - b)"
| "fsub NaN y = NaN"
| "fsub x NaN = NaN"
| "fsub PosInf PosInf = NaN"
| "fsub NegInf NegInf = NaN"
| "fsub PosInf y = PosInf"
| "fsub NegInf y = NegInf"
| "fsub (Finite a) PosInf = NegInf"
| "fsub (Finite a) NegInf = PosInf"

text \<open>\<^verbatim>\<open>a * b\<close>\<close>

fun fmul :: "FAUSTFLOAT \<Rightarrow> FAUSTFLOAT \<Rightarrow> FAUSTFLOAT" where
  "fmul (Finite a) (Finite b) = round32 (a * b)"
| "fmul NaN y = NaN"
| "fmul x NaN = NaN"
| "fmul (Finite a) PosInf = (if a = 0 then NaN else if 0 < a then PosInf else NegInf)"
| "fmul (Finite a) NegInf = (if a = 0 then NaN else if 0 < a then NegInf else PosInf)"
| "fmul PosInf (Finite b) = (if b = 0 then NaN else if 0 < b then PosInf else NegInf)"
| "fmul NegInf (Finite b) = (if b = 0 then NaN else if 0 < b then NegInf else PosInf)"
| "fmul PosInf PosInf = PosInf"
| "fmul PosInf NegInf = NegInf"
| "fmul NegInf PosInf = NegInf"
| "fmul NegInf NegInf = PosInf"

text \<open>
  \<^verbatim>\<open>a / b\<close>. A division by zero is not an error in C: it yields an infinity, or NaN
  for \<^verbatim>\<open>0 / 0\<close> (a zero divisor is taken as \<^verbatim>\<open>+0\<close>).
\<close>

fun fdiv :: "FAUSTFLOAT \<Rightarrow> FAUSTFLOAT \<Rightarrow> FAUSTFLOAT" where
  "fdiv (Finite a) (Finite b) =
     (if b = 0 then (if a = 0 then NaN else if 0 < a then PosInf else NegInf)
      else round32 (a / b))"
| "fdiv NaN y = NaN"
| "fdiv x NaN = NaN"
| "fdiv (Finite a) PosInf = Finite 0"
| "fdiv (Finite a) NegInf = Finite 0"
| "fdiv PosInf (Finite b) = (if b < 0 then NegInf else PosInf)"
| "fdiv NegInf (Finite b) = (if b < 0 then PosInf else NegInf)"
| "fdiv PosInf PosInf = NaN"
| "fdiv PosInf NegInf = NaN"
| "fdiv NegInf PosInf = NaN"
| "fdiv NegInf NegInf = NaN"

text \<open>\<^verbatim>\<open>fabsf(x)\<close>: exact, it only clears the sign.\<close>

fun fabsf :: "FAUSTFLOAT \<Rightarrow> FAUSTFLOAT" where
  "fabsf (Finite a) = Finite \<bar>a\<bar>"
| "fabsf PosInf = PosInf"
| "fabsf NegInf = PosInf"
| "fabsf NaN = NaN"

text \<open>
  \<^verbatim>\<open>powf(x, 2)\<close>, the only exponent the program uses. C leaves the accuracy of \<^verbatim>\<open>powf\<close> to
  the library; here it is the square rounded once, like the product \<^verbatim>\<open>x * x\<close>.
\<close>

fun powf_2 :: "FAUSTFLOAT \<Rightarrow> FAUSTFLOAT" where
  "powf_2 (Finite a) = round32 (a * a)"
| "powf_2 PosInf = PosInf"
| "powf_2 NegInf = PosInf"
| "powf_2 NaN = NaN"

text \<open>\<^verbatim>\<open>iszero(x)\<close>\<close>

fun iszero :: "FAUSTFLOAT \<Rightarrow> bool" where
  "iszero (Finite a) = (a = 0)"
| "iszero x = False"

text \<open>\<^verbatim>\<open>x > y\<close>: false as soon as one side is NaN.\<close>

fun fgt :: "FAUSTFLOAT \<Rightarrow> FAUSTFLOAT \<Rightarrow> bool" where
  "fgt (Finite a) (Finite b) = (b < a)"
| "fgt NaN y = False"
| "fgt x NaN = False"
| "fgt PosInf PosInf = False"
| "fgt PosInf y = True"
| "fgt NegInf y = False"
| "fgt (Finite a) PosInf = False"
| "fgt (Finite a) NegInf = True"

text \<open>\<^verbatim>\<open>x <= y\<close>: used by the statements only, the program never evaluates it.\<close>

fun fle :: "FAUSTFLOAT \<Rightarrow> FAUSTFLOAT \<Rightarrow> bool" where
  "fle (Finite a) (Finite b) = (a \<le> b)"
| "fle NaN y = False"
| "fle x NaN = False"
| "fle NegInf y = True"
| "fle x PosInf = True"
| "fle PosInf y = False"
| "fle (Finite a) NegInf = False"

section \<open>Data model\<close>

text \<open>
  \<^verbatim>\<open>struct Parameter { FAUSTFLOAT value; FAUSTFLOAT gradient; }\<close>, as the initialiser
  \<^verbatim>\<open>Parameter{fUI->getParamValue(address), 0.f}\<close> and the uses \<^verbatim>\<open>p.second.value\<close>,
  \<^verbatim>\<open>p.second.gradient\<close> show it. The fields carry a prefix because the bare names are
  reserved words of the prover.
\<close>

record Parameter =
  p_value :: FAUSTFLOAT
  p_gradient :: FAUSTFLOAT

datatype LossFunction = L1_NORM | L2_NORM

text \<open>
  Modelled from the spec: \<^verbatim>\<open>enum OutputChannel\<close> is declared in \<^verbatim>\<open>autodiff.h\<close>, which
  is not among the sources. The specification fixes the layout of an output frame:
  index 0 is the ground truth, index 1 the learnable output, indices from 2 on the
  partial derivatives.
\<close>

definition GROUND_TRUTH :: nat where
  "GROUND_TRUTH = 0"

definition LEARNABLE :: nat where
  "LEARNABLE = 1"

definition DIFFERENTIATED :: nat where
  "DIFFERENTIATED = 2"

text \<open>
  Modelled from the spec: the type of \<^verbatim>\<open>fLearnableParams\<close> is declared in
  \<^verbatim>\<open>autodiff.h\<close>, which is not among the sources. The specification describes the
  registry as an ordered mapping from address to parameter, iterated in insertion order,
  with unique addresses. It is an association list; \<^verbatim>\<open>insert\<close> appends a new address
  and leaves the registry alone when the address is already there.
\<close>

type_synonym registry = "(string \<times> Parameter) list"

definition insert_param :: "string \<times> Parameter \<Rightarrow> registry \<Rightarrow> registry" where
  "insert_param kv reg = (if fst kv \<in> fst ` set reg then reg else reg @ [kv])"

text \<open>
  What a stream receives: one token per operand of \<^verbatim>\<open><<\<close>, in the order written. The
  manipulators (\<^verbatim>\<open>std::fixed\<close>, \<^verbatim>\<open>std::setprecision\<close>, \<^verbatim>\<open>std::setw\<close>) change how the next
  operand is laid out, not what is written, and leave no token.
\<close>

datatype tok = Str string | Num int | Flt FAUSTFLOAT

definition newline :: string where
  "newline = [CHR 0x0A]"

text \<open>The \<^verbatim>\<open>const\<close> members of \<^verbatim>\<open>class mldsp\<close>, set by the constructor.\<close>

record constants =
  kLossFunction :: LossFunction
  kAlpha :: FAUSTFLOAT
  kEpsilon :: FAUSTFLOAT
  kNumIterations :: int

text \<open>
  One entry of the history: what the loop body did on one frame. The history is an
  auxiliary variable of the model; the program neither has nor reads it. It records the
  iteration and frame index, the loss, the value of \<^verbatim>\<open>lowLossCount\<close> after the frame and
  the registry as \<^verbatim>\<open>reportState\<close> saw it.
\<close>

record frame_log =
  h_iteration :: int
  h_frame :: nat
  h_loss :: FAUSTFLOAT
  h_count :: int
  h_params :: registry

text \<open>
  The mutable members of \<^verbatim>\<open>class mldsp\<close>. \<open>fDSP\<close> stands for everything behind
  \<^verbatim>\<open>fDSP\<close>, \<^verbatim>\<open>fUI\<close> and \<^verbatim>\<open>fAudio\<close>: the composed graph, its parameter zones and the audio
  driver, all of them external. \<open>fFile\<close> is the content of \<^verbatim>\<open>loss.csv\<close> and \<open>cout\<close> what
  was written to standard output.
\<close>

record 'd mldsp =
  fInputDSPPath :: string
  fGroundTruthDSPPath :: string
  fDifferentiableDSPPath :: string
  fLoss :: FAUSTFLOAT
  fLearnableParams :: registry
  fDSP :: 'd
  fFile :: "tok list"
  cout :: "tok list"
  history :: "frame_log list"

text \<open>
  The external collaborators, as functions on the external state \<open>'d\<close>. \<open>buildGraph\<close>
  stands for the first half of \<^verbatim>\<open>mldsp::initialise\<close>: compiling the three files, composing
  the graph, building its user interface and starting the audio driver. Then
  \<^verbatim>\<open>fAudio->render()\<close>, \<^verbatim>\<open>fAudio->getOutput()\<close> (channel, then frame),
  \<^verbatim>\<open>fAudio->getBufferSize()\<close> (fixed when the driver is built), and the reflection
  interface of \<^verbatim>\<open>MapUI\<close>. The last four are the command-line helpers of
  \<^verbatim>\<open>faust/misc.h\<close> and the C library's \<^verbatim>\<open>strtof\<close>; \<^verbatim>\<open>argc\<close> is the length of the
  argument list.
\<close>

record 'd collaborators =
  buildGraph :: "string \<Rightarrow> string \<Rightarrow> string \<Rightarrow> 'd \<Rightarrow> 'd"
  render :: "'d \<Rightarrow> 'd"
  getOutput :: "'d \<Rightarrow> nat \<Rightarrow> nat \<Rightarrow> FAUSTFLOAT"
  getBufferSize :: nat
  getParamsCount :: "'d \<Rightarrow> nat"
  getParamAddress :: "'d \<Rightarrow> nat \<Rightarrow> string"
  getParamValue :: "'d \<Rightarrow> string \<Rightarrow> FAUSTFLOAT"
  getParamShortname :: "'d \<Rightarrow> nat \<Rightarrow> string"
  setParamValue :: "string \<Rightarrow> FAUSTFLOAT \<Rightarrow> 'd \<Rightarrow> 'd"
  isopt :: "string list \<Rightarrow> string \<Rightarrow> bool"
  lopts :: "string list \<Rightarrow> string \<Rightarrow> string \<Rightarrow> string"
  lopts1 :: "string list \<Rightarrow> string \<Rightarrow> string \<Rightarrow> string \<Rightarrow> string"
  strtof :: "string \<Rightarrow> FAUSTFLOAT"

text \<open>
  What \<^verbatim>\<open>autodiff.h\<close> declares and the sources do not show: the default arguments of the
  constructor (\<^verbatim>\<open>sensitivity\<close>, \<^verbatim>\<open>numIterations\<close>) and the value \<^verbatim>\<open>fLoss\<close> starts with.
  They are parameters of the model.
\<close>

record declarations =
  default_sensitivity :: FAUSTFLOAT
  default_numIterations :: int
  initial_fLoss :: FAUSTFLOAT

section \<open>Loss and gradient\<close>

text \<open>\<^verbatim>\<open>mldsp::computeLoss\<close>\<close>

definition computeLoss ::
  "constants \<Rightarrow> (nat \<Rightarrow> nat \<Rightarrow> FAUSTFLOAT) \<Rightarrow> nat \<Rightarrow> 'd mldsp \<Rightarrow> 'd mldsp" where
  "computeLoss K output frame st =
     (let delta = fsub (output LEARNABLE frame) (output GROUND_TRUTH frame)
      in case kLossFunction K of
           L1_NORM \<Rightarrow> st\<lparr>fLoss := fabsf delta\<rparr>
         | L2_NORM \<Rightarrow> st\<lparr>fLoss := powf_2 delta\<rparr>)"

text \<open>
  The loop of \<^verbatim>\<open>mldsp::computeGradient\<close> over the registry, with its running channel
  index \<open>k\<close>.
\<close>

fun gradientLoop ::
  "constants \<Rightarrow> (nat \<Rightarrow> nat \<Rightarrow> FAUSTFLOAT) \<Rightarrow> nat \<Rightarrow> FAUSTFLOAT \<Rightarrow> nat \<Rightarrow> registry \<Rightarrow> registry" where
  "gradientLoop K output frame delta k [] = []"
| "gradientLoop K output frame delta k ((a, p) # ps) =
     (a, case kLossFunction K of
           L1_NORM \<Rightarrow>
             p\<lparr>p_gradient :=
                 (if iszero delta then Finite 0
                  else fdiv (fmul (output (DIFFERENTIATED + k) frame) delta) (fabsf delta))\<rparr>
         | L2_NORM \<Rightarrow>
             p\<lparr>p_gradient := fmul (fmul (Finite 2) (output (DIFFERENTIATED + k) frame)) delta\<rparr>)
     # gradientLoop K output frame delta (k + 1) ps"

text \<open>\<^verbatim>\<open>mldsp::computeGradient\<close>\<close>

definition computeGradient ::
  "constants \<Rightarrow> (nat \<Rightarrow> nat \<Rightarrow> FAUSTFLOAT) \<Rightarrow> nat \<Rightarrow> 'd mldsp \<Rightarrow> 'd mldsp" where
  "computeGradient K output frame st =
     (let delta = fsub (output LEARNABLE frame) (output GROUND_TRUTH frame)
      in st\<lparr>fLearnableParams := gradientLoop K output frame delta 0 (fLearnableParams st)\<rparr>)"

section \<open>The optimiser loop\<close>

text \<open>
  The update loop of \<^verbatim>\<open>mldsp::doGradientDescent\<close>: every parameter steps against its
  gradient and the new value is written to the external graph with
  \<^verbatim>\<open>fUI->setParamValue\<close>.
\<close>

fun updateLoop ::
  "'d collaborators \<Rightarrow> constants \<Rightarrow> registry \<Rightarrow> 'd \<Rightarrow> registry \<times> 'd" where
  "updateLoop E K [] d = ([], d)"
| "updateLoop E K ((a, p) # ps) d =
     (let p' = p\<lparr>p_value := fsub (p_value p) (fmul (kAlpha K) (p_gradient p))\<rparr>;
          d' = setParamValue E a (p_value p') d;
          (ps', d'') = updateLoop E K ps d'
      in ((a, p') # ps', d''))"

definition updateParams :: "'d collaborators \<Rightarrow> constants \<Rightarrow> 'd mldsp \<Rightarrow> 'd mldsp" where
  "updateParams E K st =
     (let (ps, d) = updateLoop E K (fLearnableParams st) (fDSP st)
      in st\<lparr>fLearnableParams := ps, fDSP := d\<rparr>)"

text \<open>
  The two loops of \<^verbatim>\<open>mldsp::reportState\<close> over the registry. Above the threshold every
  parameter is written to both streams; at or below it only the file receives the
  parameters.
\<close>

fun reportAbove ::
  "'d collaborators \<Rightarrow> 'd \<Rightarrow> (nat \<Rightarrow> nat \<Rightarrow> FAUSTFLOAT) \<Rightarrow> nat \<Rightarrow> nat \<Rightarrow> registry \<Rightarrow>
     tok list \<times> tok list \<Rightarrow> tok list \<times> tok list" where
  "reportAbove E d output frame k [] (out, file) = (out, file)"
| "reportAbove E d output frame k ((a, p) # ps) (out, file) =
     reportAbove E d output frame (k + 1) ps
       (out @ [Str newline, Str ''.'', Str (getParamShortname E d k), Str '':'',
               Str ''ds/dp: '', Flt (output (DIFFERENTIATED + k) frame),
               Str ''Grad: '', Flt (p_gradient p),
               Str ''Value: '', Flt (p_value p)],
        file @ [Str '','', Flt (p_gradient p), Str '','', Flt (p_value p)])"

fun reportBelow :: "registry \<Rightarrow> tok list \<Rightarrow> tok list" where
  "reportBelow [] file = file"
| "reportBelow ((a, p) # ps) file =
     reportBelow ps (file @ [Str '','', Flt (p_gradient p), Str '','', Flt (p_value p)])"

text \<open>\<^verbatim>\<open>mldsp::reportState\<close>\<close>

definition reportState ::
  "'d collaborators \<Rightarrow> constants \<Rightarrow> int \<Rightarrow> (nat \<Rightarrow> nat \<Rightarrow> FAUSTFLOAT) \<Rightarrow> nat \<Rightarrow>
     'd mldsp \<Rightarrow> 'd mldsp" where
  "reportState E K iteration output frame st =
     (let out1 = cout st @
            [Num iteration,
             Str ''Sig GT: '', Flt (output GROUND_TRUTH frame),
             Str ''Sig Learn: '', Flt (output LEARNABLE frame),
             Str ''Loss: '', Flt (fLoss st)];
          file1 = fFile st @ [Num iteration, Str '','', Flt (fLoss st)];
          (out2, file2) =
            (if fgt (fLoss st) (kEpsilon K)
             then reportAbove E (fDSP st) output frame 0 (fLearnableParams st) (out1, file1)
             else (out1, reportBelow (fLearnableParams st) file1))
      in st\<lparr>cout := out2 @ [Str newline], fFile := file2 @ [Str newline]\<rparr>)"

text \<open>
  The body of the inner loop of \<^verbatim>\<open>mldsp::doGradientDescent\<close>, up to and including the
  call of \<^verbatim>\<open>reportState\<close>. It takes and returns the local \<^verbatim>\<open>lowLossCount\<close>. The last
  step extends the history.
\<close>

definition frameBody ::
  "'d collaborators \<Rightarrow> constants \<Rightarrow> int \<Rightarrow> (nat \<Rightarrow> nat \<Rightarrow> FAUSTFLOAT) \<Rightarrow> nat \<Rightarrow>
     int \<Rightarrow> 'd mldsp \<Rightarrow> int \<times> 'd mldsp" where
  "frameBody E K i output frame lowLossCount st =
     (let st1 = computeLoss K output frame st;
          (lowLossCount', st2) =
            (if fgt (fLoss st1) (kEpsilon K)
             then (0, updateParams E K (computeGradient K output frame st1))
             else (lowLossCount + 1, st1));
          st3 = reportState E K i output frame st2
      in (lowLossCount',
          st3\<lparr>history := history st3 @
                 [\<lparr>h_iteration = i, h_frame = frame, h_loss = fLoss st3,
                   h_count = lowLossCount', h_params = fLearnableParams st3\<rparr>]\<rparr>))"

text \<open>
  How the inner loop ends: \<open>Returned\<close> through \<^verbatim>\<open>if (lowLossCount > 20) return;\<close>, or
  \<open>Completed\<close> when \<^verbatim>\<open>frame\<close> has reached the buffer size.
\<close>

datatype flow = Returned | Completed

function frameLoop ::
  "'d collaborators \<Rightarrow> constants \<Rightarrow> int \<Rightarrow> (nat \<Rightarrow> nat \<Rightarrow> FAUSTFLOAT) \<Rightarrow> nat \<Rightarrow>
     int \<Rightarrow> 'd mldsp \<Rightarrow> flow \<times> int \<times> 'd mldsp" where
  "frameLoop E K i output frame lowLossCount st =
     (if frame < getBufferSize E then
        (let (lowLossCount', st') = frameBody E K i output frame lowLossCount st
         in if lowLossCount' > 20 then (Returned, lowLossCount', st')
            else frameLoop E K i output (frame + 1) lowLossCount' st')
      else (Completed, lowLossCount, st))"
  by pat_completeness auto
termination
  by (relation "measure (\<lambda>(E, K, i, output, frame, c, st). getBufferSize E - frame)") auto

text \<open>
  How \<^verbatim>\<open>mldsp::doGradientDescent\<close> ends: \<open>CONVERGED\<close> is the \<^verbatim>\<open>return\<close> inside the loops,
  \<open>EXHAUSTED\<close> the end of the outer loop. The names are the specification's.
\<close>

datatype outcome = CONVERGED | EXHAUSTED

function iterationLoop ::
  "'d collaborators \<Rightarrow> constants \<Rightarrow> int \<Rightarrow> int \<Rightarrow> 'd mldsp \<Rightarrow> outcome \<times> int \<times> 'd mldsp" where
  "iterationLoop E K i lowLossCount st =
     (if i \<le> kNumIterations K then
        (let st1 = st\<lparr>fDSP := render E (fDSP st)\<rparr>;
             output = getOutput E (fDSP st1)
         in case frameLoop E K i output 0 lowLossCount st1 of
              (Returned, lowLossCount', st') \<Rightarrow> (CONVERGED, lowLossCount', st')
            | (Completed, lowLossCount', st') \<Rightarrow> iterationLoop E K (i + 1) lowLossCount' st')
      else (EXHAUSTED, lowLossCount, st))"
  by pat_completeness auto
termination
  by (relation "measure (\<lambda>(E, K, i, c, st). nat (kNumIterations K + 1 - i))") auto

text \<open>
  \<^verbatim>\<open>mldsp::doGradientDescent\<close>, returning how it ended and the final \<^verbatim>\<open>lowLossCount\<close>.
  The history starts empty, as \<^verbatim>\<open>lowLossCount\<close> starts at zero.
\<close>

definition doGradientDescent ::
  "'d collaborators \<Rightarrow> constants \<Rightarrow> 'd mldsp \<Rightarrow> outcome \<times> int \<times> 'd mldsp" where
  "doGradientDescent E K st = iterationLoop E K 1 0 (st\<lparr>history := []\<rparr>)"

section \<open>Construction, initialisation and the command line\<close>

text \<open>\<^verbatim>\<open>mldsp::mldsp\<close>. \<open>d\<close> is the external state the object is created in.\<close>

definition construct ::
  "declarations \<Rightarrow> string \<Rightarrow> string \<Rightarrow> string \<Rightarrow> LossFunction \<Rightarrow> FAUSTFLOAT \<Rightarrow>
     FAUSTFLOAT \<Rightarrow> int \<Rightarrow> 'd \<Rightarrow> tok list \<Rightarrow> constants \<times> 'd mldsp" where
  "construct H inputDSPPath groundTruthDSPPath differentiableDSPPath lossFunction
     learningRate sensitivity numIterations d out =
     (\<lparr>kLossFunction = lossFunction, kAlpha = learningRate, kEpsilon = sensitivity,
       kNumIterations = numIterations\<rparr>,
      \<lparr>fInputDSPPath = inputDSPPath, fGroundTruthDSPPath = groundTruthDSPPath,
       fDifferentiableDSPPath = differentiableDSPPath, fLoss = initial_fLoss H,
       fLearnableParams = [], fDSP = d, fFile = [],
       cout = out @ [Str ''Learning rate: '', Flt learningRate,
                     Str (newline @ ''Sensitivity: ''), Flt sensitivity,
                     Str (newline @ newline)],
       history = []\<rparr>)"

text \<open>\<^verbatim>\<open>std::string::find_last_of\<close> for one character: \<open>None\<close> is \<^verbatim>\<open>npos\<close>.\<close>

definition find_last_of :: "string \<Rightarrow> char \<Rightarrow> nat option" where
  "find_last_of s c =
     (if c \<in> set s then Some (length s - 1 - length (takeWhile (\<lambda>x. x \<noteq> c) (rev s)))
      else None)"

text \<open>
  \<^verbatim>\<open>p.first.substr(p.first.find_last_of("/") + 1)\<close>; \<^verbatim>\<open>npos + 1\<close> wraps to 0, so an
  address without a slash is its own label.
\<close>

definition label :: "string \<Rightarrow> string" where
  "label address =
     drop (case find_last_of address CHR ''/'' of None \<Rightarrow> 0 | Some i \<Rightarrow> i + 1) address"

text \<open>The registration loop of \<^verbatim>\<open>mldsp::initialise\<close>, from index \<open>p\<close> on.\<close>

function registerLoop :: "'d collaborators \<Rightarrow> 'd \<Rightarrow> nat \<Rightarrow> registry \<Rightarrow> registry" where
  "registerLoop E d p reg =
     (if p < getParamsCount E d then
        (let address = getParamAddress E d p
         in registerLoop E d (p + 1)
              (insert_param
                 (address, \<lparr>p_value = getParamValue E d address, p_gradient = Finite 0\<rparr>) reg))
      else reg)"
  by pat_completeness auto
termination
  by (relation "measure (\<lambda>(E, d, p, reg). getParamsCount E d - p)") auto

text \<open>The loop of \<^verbatim>\<open>mldsp::initialise\<close> that writes the header and lists the parameters.\<close>

fun headerLoop :: "registry \<Rightarrow> tok list \<times> tok list \<Rightarrow> tok list \<times> tok list" where
  "headerLoop [] (out, file) = (out, file)"
| "headerLoop ((a, p) # ps) (out, file) =
     headerLoop ps
       (out @ [Str ''Learnable parameter: '', Str a, Str '', value: '', Flt (p_value p),
               Str newline],
        file @ [Str '',gradient_'', Str (label a), Str '','', Str (label a)])"

text \<open>\<^verbatim>\<open>mldsp::initialise\<close>. Opening \<^verbatim>\<open>loss.csv\<close> for writing empties it.\<close>

definition initialise :: "'d collaborators \<Rightarrow> 'd mldsp \<Rightarrow> 'd mldsp" where
  "initialise E st =
     (let d = buildGraph E (fInputDSPPath st) (fGroundTruthDSPPath st)
                (fDifferentiableDSPPath st) (fDSP st);
          reg = registerLoop E d 0 (fLearnableParams st);
          (out, file) = headerLoop reg (cout st @ [Str newline], [Str ''iteration,loss''])
      in st\<lparr>fDSP := d, fLearnableParams := reg,
            cout := out @ [Str newline], fFile := file @ [Str newline]\<rparr>)"

text \<open>
  How \<^verbatim>\<open>main\<close> ends: through \<^verbatim>\<open>exit\<close> with a status and what was printed, or after the
  run, with the constants it chose and the result of \<^verbatim>\<open>doGradientDescent\<close>.
\<close>

datatype 'd main_result =
  Exit int "tok list"
| Ran constants "outcome \<times> int \<times> 'd mldsp"

text \<open>\<^verbatim>\<open>main\<close>. \<open>argv\<close> is \<open>prog # args\<close>, \<open>d\<close> the external state at start.\<close>

definition main ::
  "'d collaborators \<Rightarrow> declarations \<Rightarrow> string \<Rightarrow> string list \<Rightarrow> 'd \<Rightarrow> 'd main_result" where
  "main E H prog args d =
     (let argv = prog # args in
      if isopt E argv ''--help'' then
        Exit 0 [Str ''Usage: '', Str prog, Str '' --input <file> --gt <file> --diff <file>'',
                Str '' [-lf|--lossfunction <loss-function>]'',
                Str ('' [-lr|--learningrate <learning-rate>]'' @ newline)]
      else if \<not> isopt E argv ''--input'' \<or> \<not> isopt E argv ''--gt'' \<or> \<not> isopt E argv ''--diff'' then
        Exit 1 [Str (''Please provide input, ground truth, and differentiable Faust files.''
                     @ newline),
                Str prog, Str ('' --input <file> --gt <file> --diff <file>'' @ newline)]
      else
        (let input = lopts E argv ''--input'' '''';
             gt = lopts E argv ''--gt'' '''';
             diff = lopts E argv ''--diff'' '''';
             lf = L2_NORM;
             lossFunction = lopts1 E argv ''--lossfunction'' ''-lf'' '''';
             lf = (if lossFunction = ''l1'' then L1_NORM
                   else if lossFunction = ''l2'' then L2_NORM
                   else lf);
             learningRate = strtof E (lopts1 E argv ''--learningrate'' ''-lr'' ''0.1'');
             (K, st) = construct H input gt diff lf learningRate
                         (default_sensitivity H) (default_numIterations H) d []
         in Ran K (doGradientDescent E K (initialise E st))))"

section \<open>Notions used by the statements\<close>

text \<open>
  The frames in the order the two loops visit them: iteration \<open>1\<close> to \<^verbatim>\<open>kNumIterations\<close>,
  and in each of them frame \<open>0\<close> up to the buffer size.
\<close>

definition schedule :: "'d collaborators \<Rightarrow> constants \<Rightarrow> (int \<times> nat) list" where
  "schedule E K =
     concat (map (\<lambda>i. map (\<lambda>frame. (i, frame)) [0..<getBufferSize E]) [1..kNumIterations K])"

definition position :: "frame_log \<Rightarrow> int \<times> nat" where
  "position e = (h_iteration e, h_frame e)"

text \<open>
  The counter recorded on each frame follows from the counter before the frame and the
  frame's loss alone: zero above the threshold, one more otherwise.
\<close>

fun counts_follow :: "FAUSTFLOAT \<Rightarrow> int \<Rightarrow> frame_log list \<Rightarrow> bool" where
  "counts_follow eps c [] = True"
| "counts_follow eps c (e # es) =
     (h_count e = (if fgt (h_loss e) eps then 0 else c + 1) \<and> counts_follow eps (h_count e) es)"

text \<open>The gradient formulas of the specification, for a raw derivative \<open>d\<close>.\<close>

definition gradient_of :: "LossFunction \<Rightarrow> FAUSTFLOAT \<Rightarrow> FAUSTFLOAT \<Rightarrow> FAUSTFLOAT" where
  "gradient_of lf d delta =
     (case lf of
        L1_NORM \<Rightarrow> (if iszero delta then Finite 0 else fdiv (fmul d delta) (fabsf delta))
      | L2_NORM \<Rightarrow> fmul (fmul (Finite 2) d) delta)"

text \<open>
  The text of a stream, for any way \<open>fi\<close> of printing an \<^verbatim>\<open>int\<close> and \<open>ff\<close> of printing a
  \<^verbatim>\<open>FAUSTFLOAT\<close>.
\<close>

fun show_tok :: "(int \<Rightarrow> string) \<Rightarrow> (FAUSTFLOAT \<Rightarrow> string) \<Rightarrow> tok \<Rightarrow> string" where
  "show_tok fi ff (Str s) = s"
| "show_tok fi ff (Num n) = fi n"
| "show_tok fi ff (Flt x) = ff x"

definition stream_text :: "(int \<Rightarrow> string) \<Rightarrow> (FAUSTFLOAT \<Rightarrow> string) \<Rightarrow> tok list \<Rightarrow> string" where
  "stream_text fi ff ts = concat (map (show_tok fi ff) ts)"

text \<open>A table as comma-separated text: one line per row, the cells joined by commas.\<close>

fun join_commas :: "string list \<Rightarrow> string" where
  "join_commas [] = []"
| "join_commas [c] = c"
| "join_commas (c # cs) = c @ '','' @ join_commas cs"

definition csv_text :: "string list list \<Rightarrow> string" where
  "csv_text rows = concat (map (\<lambda>cells. join_commas cells @ newline) rows)"

definition header_cells :: "registry \<Rightarrow> string list" where
  "header_cells reg =
     [''iteration'', ''loss''] @ concat (map (\<lambda>(a, p). [''gradient_'' @ label a, label a]) reg)"

definition row_cells :: "(int \<Rightarrow> string) \<Rightarrow> (FAUSTFLOAT \<Rightarrow> string) \<Rightarrow> frame_log \<Rightarrow> string list" where
  "row_cells fi ff e =
     [fi (h_iteration e), ff (h_loss e)] @
     concat (map (\<lambda>(a, p). [ff (p_gradient p), ff (p_value p)]) (h_params e))"

text \<open>
  What a call appended to a stream, the numbers among it, and what it means for a trace
  line to carry the data of a row of the file: the numbers of the row occur in the trace
  line, in the same order.
\<close>

definition written :: "tok list \<Rightarrow> tok list \<Rightarrow> tok list" where
  "written before after = drop (length before) after"

fun is_number :: "tok \<Rightarrow> bool" where
  "is_number (Str s) = False"
| "is_number (Num n) = True"
| "is_number (Flt x) = True"

definition numbers :: "tok list \<Rightarrow> tok list" where
  "numbers ts = filter is_number ts"


text \<open>The tokens of the file, line by line, as the program writes them.\<close>

definition param_toks :: "registry \<Rightarrow> tok list" where
  "param_toks reg =
     concat (map (\<lambda>(a, p). [Str '','', Flt (p_gradient p), Str '','', Flt (p_value p)]) reg)"

definition row_toks :: "frame_log \<Rightarrow> tok list" where
  "row_toks e =
     [Num (h_iteration e), Str '','', Flt (h_loss e)] @ param_toks (h_params e) @ [Str newline]"

definition header_toks :: "registry \<Rightarrow> tok list" where
  "header_toks reg =
     [Str ''iteration,loss''] @
     concat (map (\<lambda>(a, p). [Str '',gradient_'', Str (label a), Str '','', Str (label a)]) reg) @
     [Str newline]"

text \<open>The loss function \<^verbatim>\<open>main\<close> ran the optimiser with, if it ran it.\<close>

fun chosen :: "'d main_result \<Rightarrow> LossFunction option" where
  "chosen (Exit code out) = None"
| "chosen (Ran K r) = Some (kLossFunction K)"

text \<open>The number of commas in a text.\<close>

definition commas :: "string \<Rightarrow> nat" where
  "commas s = count_list s CHR '',''"

text \<open>The value of \<^verbatim>\<open>lowLossCount\<close> after the frames of a history, starting from \<open>c\<close>.\<close>

definition last_count :: "int \<Rightarrow> frame_log list \<Rightarrow> int" where
  "last_count c es = (if es = [] then c else h_count (last es))"

section \<open>A small external graph\<close>

text \<open>
  A one-parameter graph to run the program on. The ground truth is the constant \<open>1/2\<close>,
  the learnable output is the parameter itself and its derivative is \<open>1\<close>. A rendered
  block holds the value the parameter had when the block was rendered.
\<close>

record demo_dsp =
  zone :: FAUSTFLOAT
  block :: FAUSTFLOAT

fun arg_after :: "(string \<Rightarrow> bool) \<Rightarrow> string list \<Rightarrow> string option" where
  "arg_after P (a # b # rest) = (if P a then Some b else arg_after P (b # rest))"
| "arg_after P rest = None"

definition demo_env :: "nat \<Rightarrow> demo_dsp collaborators" where
  "demo_env bs =
     \<lparr>buildGraph = (\<lambda>input gt diff d. d),
      render = (\<lambda>d. d\<lparr>block := zone d\<rparr>),
      getOutput = (\<lambda>d channel frame.
        if channel = 0 then Finite (1/2) else if channel = 1 then block d else Finite 1),
      getBufferSize = bs,
      getParamsCount = (\<lambda>d. 1),
      getParamAddress = (\<lambda>d p. ''/demo/gain''),
      getParamValue = (\<lambda>d a. zone d),
      getParamShortname = (\<lambda>d p. ''gain''),
      setParamValue = (\<lambda>a v d. d\<lparr>zone := v\<rparr>),
      isopt = (\<lambda>argv name. name \<in> set argv),
      lopts = (\<lambda>argv name def. case arg_after (\<lambda>a. a = name) argv of
                 None \<Rightarrow> def | Some v \<Rightarrow> v),
      lopts1 = (\<lambda>argv longname shortname def.
                 case arg_after (\<lambda>a. a = shortname \<or> a = longname) argv of
                   None \<Rightarrow> def | Some v \<Rightarrow> v),
      strtof = (\<lambda>s. if s = ''0.125'' then Finite (1/8) else Finite (13421773 / 2 ^ 27))\<rparr>"

definition demo_declarations :: declarations where
  "demo_declarations =
     \<lparr>default_sensitivity = Finite (1/1024), default_numIterations = 10,
      initial_fLoss = Finite 0\<rparr>"

definition demo_constants :: "LossFunction \<Rightarrow> FAUSTFLOAT \<Rightarrow> int \<Rightarrow> constants" where
  "demo_constants lf alpha n =
     \<lparr>kLossFunction = lf, kAlpha = alpha, kEpsilon = Finite (1/1024), kNumIterations = n\<rparr>"

text \<open>The object after construction and \<^verbatim>\<open>initialise\<close>, the parameter starting at \<open>v\<close>.\<close>

definition demo_object :: "nat \<Rightarrow> real \<Rightarrow> demo_dsp mldsp" where
  "demo_object bs v =
     initialise (demo_env bs)
       (snd (construct demo_declarations ''in.dsp'' ''gt.dsp'' ''diff.dsp'' L2_NORM
               (Finite (1/8)) (Finite (1/1024)) 10 \<lparr>zone = Finite v, block = Finite 0\<rparr> []))"

text \<open>One frame, as a function from channel and frame index to sample.\<close>

definition demo_frame :: "FAUSTFLOAT \<Rightarrow> FAUSTFLOAT \<Rightarrow> FAUSTFLOAT \<Rightarrow> nat \<Rightarrow> nat \<Rightarrow> FAUSTFLOAT" where
  "demo_frame target observed d channel frame =
     (if channel = 0 then target else if channel = 1 then observed else d)"

text \<open>The same graph with two parameters, and a frame whose samples are the channel numbers.\<close>

definition demo_env2 :: "demo_dsp collaborators" where
  "demo_env2 =
     (demo_env 1)\<lparr>getParamsCount := (\<lambda>d. 2),
                  getParamAddress := (\<lambda>d p. if p = 0 then ''/demo/bias'' else ''/demo/gain'')\<rparr>"

definition demo_object2 :: "demo_dsp mldsp" where
  "demo_object2 =
     initialise demo_env2
       (snd (construct demo_declarations ''in.dsp'' ''gt.dsp'' ''diff.dsp'' L2_NORM
               (Finite (1/8)) (Finite (1/1024)) 10 \<lparr>zone = Finite (1/4), block = Finite 0\<rparr> []))"

definition channel_number :: "nat \<Rightarrow> nat \<Rightarrow> FAUSTFLOAT" where
  "channel_number channel frame = Finite (real channel)"

text \<open>
  Two runs on the small graph, and what a run leaves to look at: how it ended, the final
  counter, and iteration, frame, loss and counter of every processed frame.
\<close>

definition summary ::
  "outcome \<times> int \<times> 'd mldsp \<Rightarrow> outcome \<times> int \<times> (int \<times> int \<times> FAUSTFLOAT \<times> int) list" where
  "summary r =
     (fst r, fst (snd r),
      map (\<lambda>e. (h_iteration e, int (h_frame e), h_loss e, h_count e)) (history (snd (snd r))))"


definition learning_run :: "outcome \<times> int \<times> demo_dsp mldsp" where
  "learning_run =
     doGradientDescent (demo_env 4) (demo_constants L2_NORM (Finite (1/8)) 10)
       (demo_object 4 (1/4))"

text \<open>
  A run of one block of two frames, and a rendering of the numbers that occur in it, to look
  at the text of the CSV file.
\<close>

definition short_run :: "outcome \<times> int \<times> demo_dsp mldsp" where
  "short_run =
     doGradientDescent (demo_env 2) (demo_constants L2_NORM (Finite (1/8)) 1)
       (demo_object 2 (1/4))"

definition demo_fi :: "int \<Rightarrow> string" where
  "demo_fi n = (if n = 1 then ''1'' else ''?'')"

definition demo_ff :: "FAUSTFLOAT \<Rightarrow> string" where
  "demo_ff x =
     (if x = Finite (1/16) then ''0.0625''
      else if x = Finite (- (1/2)) then ''-0.5''
      else if x = Finite (5/16) then ''0.3125''
      else if x = Finite (3/8) then ''0.375''
      else ''?'')"

text \<open>
  One frame with observed sample \<open>1\<close>, target \<open>1/2\<close> and derivative \<open>1\<close>, where the step size
  and the parameter are the floats nearest to \<open>0.1\<close> and \<open>0.3\<close>, which are
  \<open>13421773 / 2\<^sup>2\<^sup>7\<close> and \<open>10066330 / 2\<^sup>2\<^sup>5\<close>; the same frame with step size \<open>1/8\<close> and
  parameter \<open>1/4\<close>; and a frame on which the observed sample is the target.
\<close>

definition decimal_step :: "int \<times> demo_dsp mldsp" where
  "decimal_step =
     frameBody (demo_env 4) (demo_constants L2_NORM (round32 (1/10)) 10) 1
       (demo_frame (Finite (1/2)) (Finite 1) (Finite 1)) 0 0 (demo_object 4 (10066330 / 2 ^ 25))"



section \<open>Properties of rounding\<close>

declare scan_up.simps [simp del] scan_down.simps [simp del]

lemmas round32_eval =
  round32_def overflow_def quantise_def rne_def ties_to_even_def exponent_def
  scan_up.simps scan_down.simps pow2_def

lemma pow2_pos: "0 < pow2 e"
  by (simp add: pow2_def)

lemma rne_nonneg: "0 \<le> x \<Longrightarrow> 0 \<le> rne x"
  by (simp add: rne_def ties_to_even_def)

lemma quantise_nonneg: "0 \<le> a \<Longrightarrow> 0 \<le> quantise q a"
  using rne_nonneg [of "a / pow2 q"] pow2_pos [of q]
  by (simp add: quantise_def)

lemma round32_nonneg:
  assumes "0 \<le> x"
  shows "round32 x = PosInf \<or> (\<exists>v\<ge>0. round32 x = Finite v)"
  using assms quantise_nonneg [of "\<bar>x\<bar>" "exponent \<bar>x\<bar> - 23"]
  by (auto simp: round32_def overflow_def)

lemma round32_not_NaN: "round32 x \<noteq> NaN"
  by (simp add: round32_def overflow_def)

lemma round32_minus: "round32 x = Finite y \<Longrightarrow> round32 (- x) = Finite (- y)"
  by (cases "x = 0"; cases "x < 0") (auto simp: round32_def overflow_def split: if_splits)

lemma fle_zero_fabsf: "x \<noteq> NaN \<Longrightarrow> fle (Finite 0) (fabsf x)"
  by (cases x) auto

lemma fle_zero_powf_2: "x \<noteq> NaN \<Longrightarrow> fle (Finite 0) (powf_2 x)"
proof (cases x)
  case (Finite a)
  from round32_nonneg [of "a * a"] show ?thesis by (auto simp: Finite)
qed auto

text \<open>The roundings that the runs on the small graph perform: all of them exact.\<close>

lemma round32_values:
  "round32 1 = Finite 1"
  "round32 2 = Finite 2"
  "round32 4 = Finite 4"
  "round32 6 = Finite 6"
  "round32 (1 / 2) = Finite (1 / 2)"
  "round32 (1 / 4) = Finite (1 / 4)"
  "round32 (3 / 4) = Finite (3 / 4)"
  "round32 (1 / 8) = Finite (1 / 8)"
  "round32 (3 / 8) = Finite (3 / 8)"
  "round32 (1 / 16) = Finite (1 / 16)"
  "round32 (5 / 16) = Finite (5 / 16)"
  "round32 (7 / 16) = Finite (7 / 16)"
  "round32 (- (1 / 2)) = Finite (- (1 / 2))"
  "round32 (- (1 / 4)) = Finite (- (1 / 4))"
  "round32 (- (1 / 16)) = Finite (- (1 / 16))"
  by (simp_all add: round32_eval)

lemma round32_zero [simp]: "round32 0 = Finite 0"
  by (simp add: round32_def)

text \<open>The floats nearest to \<open>0.1\<close>, \<open>0.3\<close> and \<open>0.2\<close>, and the difference of the first two.\<close>

lemma round32_tenth: "round32 (1 / 10) = Finite (13421773 / 2 ^ 27)"
  by (simp add: round32_eval)

lemma round32_three_tenths: "round32 (3 / 10) = Finite (10066330 / 2 ^ 25)"
  by (simp add: round32_eval)

lemma round32_fifth: "round32 (1 / 5) = Finite (13421773 / 2 ^ 26)"
  by (simp add: round32_eval)

lemma round32_difference:
  "round32 (10066330 / 2 ^ 25 - 13421773 / 2 ^ 27) = Finite (13421774 / 2 ^ 26)"
  by (simp add: round32_eval)

lemma round32_of_tenth: "round32 (13421773 / 2 ^ 27) = Finite (13421773 / 2 ^ 27)"
  by (simp add: round32_eval)

section \<open>Properties of the gradient extractor\<close>

lemma gradientLoop_length [simp]:
  "length (gradientLoop K out frame delta k ps) = length ps"
  by (induction ps arbitrary: k) auto

lemma gradientLoop_fst [simp]:
  "map fst (gradientLoop K out frame delta k ps) = map fst ps"
  by (induction ps arbitrary: k) auto

lemma gradientLoop_value [simp]:
  "map (p_value \<circ> snd) (gradientLoop K out frame delta k ps) = map (p_value \<circ> snd) ps"
  by (induction ps arbitrary: k) (auto split: LossFunction.splits)

lemma gradientLoop_nth:
  "n < length ps \<Longrightarrow>
   p_gradient (snd (gradientLoop K out frame delta k ps ! n)) =
     (case kLossFunction K of
        L1_NORM \<Rightarrow>
          (if iszero delta then Finite 0
           else fdiv (fmul (out (DIFFERENTIATED + (k + n)) frame) delta) (fabsf delta))
      | L2_NORM \<Rightarrow> fmul (fmul (Finite 2) (out (DIFFERENTIATED + (k + n)) frame)) delta)"
proof (induction ps arbitrary: k n)
  case Nil
  then show ?case by simp
next
  case (Cons ap ps)
  obtain a p where ap: "ap = (a, p)" by (cases ap)
  show ?case
  proof (cases n)
    case 0
    then show ?thesis by (simp add: ap split: LossFunction.splits)
  next
    case (Suc m)
    with Cons.prems have "m < length ps" by simp
    from Cons.IH [OF this, of "k + 1"] show ?thesis
      by (simp add: ap Suc split: LossFunction.splits)
  qed
qed

lemma fabsf_iszero [simp]: "iszero (fabsf x) = iszero x"
  by (cases x) auto

lemma sign_quotient: "x \<noteq> 0 \<Longrightarrow> y * x / \<bar>x\<bar> = y * sgn (x::real)"
  by (simp add: sgn_real_def)


section \<open>Properties of the loop\<close>

lemma reportBelow_eq: "reportBelow ps fl = fl @ param_toks ps"
  by (induction ps arbitrary: fl) (auto simp: param_toks_def)

lemma reportAbove_file: "snd (reportAbove E d out frame k ps (os, fl)) = fl @ param_toks ps"
  by (induction ps arbitrary: k os fl) (auto simp: param_toks_def)

lemma reportState_fields [simp]:
  "fLoss (reportState E K i out frame st) = fLoss st"
  "fLearnableParams (reportState E K i out frame st) = fLearnableParams st"
  "fDSP (reportState E K i out frame st) = fDSP st"
  "history (reportState E K i out frame st) = history st"
  by (simp_all add: reportState_def Let_def split: prod.splits)

lemma reportState_file:
  "fFile (reportState E K i out frame st) =
     fFile st @ [Num i, Str '','', Flt (fLoss st)] @ param_toks (fLearnableParams st) @ [Str newline]"
proof (cases "fgt (fLoss st) (kEpsilon K)")
  case True
  then show ?thesis
    using reportAbove_file [of E "fDSP st" out frame 0 "fLearnableParams st"]
    by (simp add: reportState_def Let_def split: prod.splits) (metis append.assoc snd_conv append_Cons append_Nil)
next
  case False
  then show ?thesis by (simp add: reportState_def Let_def reportBelow_eq)
qed

lemma computeLoss_fields [simp]:
  "fLearnableParams (computeLoss K out frame st) = fLearnableParams st"
  "fDSP (computeLoss K out frame st) = fDSP st"
  "history (computeLoss K out frame st) = history st"
  "fFile (computeLoss K out frame st) = fFile st"
  "cout (computeLoss K out frame st) = cout st"
  by (simp_all add: computeLoss_def Let_def split: LossFunction.splits)

lemma computeGradient_fields [simp]:
  "fLoss (computeGradient K out frame st) = fLoss st"
  "fDSP (computeGradient K out frame st) = fDSP st"
  "history (computeGradient K out frame st) = history st"
  "fFile (computeGradient K out frame st) = fFile st"
  "cout (computeGradient K out frame st) = cout st"
  by (simp_all add: computeGradient_def Let_def)

lemma updateParams_fields [simp]:
  "fLoss (updateParams E K st) = fLoss st"
  "history (updateParams E K st) = history st"
  "fFile (updateParams E K st) = fFile st"
  "cout (updateParams E K st) = cout st"
  by (simp_all add: updateParams_def Let_def split: prod.splits)

lemma updateLoop_fst [simp]: "map fst (fst (updateLoop E K ps d)) = map fst ps"
proof (induction ps arbitrary: d)
  case Nil
  then show ?case by simp
next
  case (Cons ap ps)
  obtain a p where ap: "ap = (a, p)" by (cases ap)
  let ?d = "setParamValue E a (fsub (p_value p) (fmul (kAlpha K) (p_gradient p))) d"
  from Cons.IH [of ?d] show ?case
    by (cases "updateLoop E K ps ?d") (simp add: ap Let_def)
qed

lemma frameBody_eq:
  "frameBody E K i out frame c st =
     (let st1 = computeLoss K out frame st;
          above = fgt (fLoss st1) (kEpsilon K);
          st2 = (if above then updateParams E K (computeGradient K out frame st1) else st1);
          c' = (if above then 0 else c + 1)
      in (c', reportState E K i out frame st2
              \<lparr>history := history st @
                 [\<lparr>h_iteration = i, h_frame = frame, h_loss = fLoss st1,
                   h_count = c', h_params = fLearnableParams st2\<rparr>]\<rparr>))"
  by (simp add: frameBody_def Let_def)

lemma updateParams_fst [simp]:
  "map fst (fLearnableParams (updateParams E K st)) = map fst (fLearnableParams st)"
  using updateLoop_fst [of E K "fLearnableParams st" "fDSP st"]
  by (cases "updateLoop E K (fLearnableParams st) (fDSP st)") (simp add: updateParams_def)

lemma computeGradient_fst [simp]:
  "map fst (fLearnableParams (computeGradient K out frame st)) = map fst (fLearnableParams st)"
  by (simp add: computeGradient_def Let_def)

lemma frameBody_history:
  assumes "frameBody E K i out frame c st = (c', st')"
  shows "\<exists>e. history st' = history st @ [e] \<and> position e = (i, frame) \<and> h_count e = c' \<and>
             c' = (if fgt (h_loss e) (kEpsilon K) then 0 else c + 1) \<and>
             h_loss e = fLoss st' \<and> h_params e = fLearnableParams st' \<and>
             fFile st' = fFile st @ row_toks e \<and>
             map fst (fLearnableParams st') = map fst (fLearnableParams st)"
proof -
  define st1 where "st1 = computeLoss K out frame st"
  define st2 where "st2 = (if fgt (fLoss st1) (kEpsilon K)
    then updateParams E K (computeGradient K out frame st1) else st1)"
  define e where "e = \<lparr>h_iteration = i, h_frame = frame, h_loss = fLoss st1,
    h_count = c', h_params = fLearnableParams st2\<rparr>"
  from assms have c': "c' = (if fgt (fLoss st1) (kEpsilon K) then 0 else c + 1)"
    and st': "st' = reportState E K i out frame st2\<lparr>history := history st @ [e]\<rparr>"
    by (auto simp: frameBody_eq Let_def st1_def st2_def e_def)
  have loss2: "fLoss st2 = fLoss st1" by (simp add: st2_def)
  have file2: "fFile st2 = fFile st" by (simp add: st2_def st1_def)
  have fst2: "map fst (fLearnableParams st2) = map fst (fLearnableParams st)"
    by (simp add: st2_def st1_def)
  have "history st' = history st @ [e]" by (simp add: st')
  moreover have "position e = (i, frame)" by (simp add: position_def e_def)
  moreover have "h_count e = c'" by (simp add: e_def)
  moreover have "c' = (if fgt (h_loss e) (kEpsilon K) then 0 else c + 1)"
    by (simp add: c' e_def)
  moreover have "h_loss e = fLoss st'" by (simp add: e_def st' loss2)
  moreover have "h_params e = fLearnableParams st'" by (simp add: e_def st')
  moreover have "fFile st' = fFile st @ row_toks e"
    by (simp add: st' reportState_file row_toks_def e_def loss2 file2)
  moreover have "map fst (fLearnableParams st') = map fst (fLearnableParams st)"
    by (simp add: st' fst2)
  ultimately show ?thesis by blast
qed


lemma last_count_simps [simp]:
  "last_count c [] = c"
  "last_count c [e] = h_count e"
  "last_count c (e # es) = last_count (h_count e) es"
  by (simp_all add: last_count_def)

declare frameLoop.simps [simp del] iterationLoop.simps [simp del] registerLoop.simps [simp del]

lemma frameLoop_history:
  assumes "frameLoop E K i out frame c st = (fl, c', st')"
  shows "\<exists>ext. history st' = history st @ ext \<and>
           map position ext = map (Pair i) [frame..<frame + length ext] \<and>
           counts_follow (kEpsilon K) c ext \<and>
           c' = last_count c ext \<and>
           (\<forall>e\<in>set (butlast ext). h_count e \<le> 20) \<and>
           (fl = Returned \<longrightarrow> ext \<noteq> [] \<and> 20 < h_count (last ext) \<and>
              frame + length ext \<le> getBufferSize E) \<and>
           (fl = Completed \<longrightarrow> frame + length ext = max frame (getBufferSize E) \<and>
              (\<forall>e\<in>set ext. h_count e \<le> 20)) \<and>
           fFile st' = fFile st @ concat (map row_toks ext) \<and>
           (\<forall>e\<in>set ext. map fst (h_params e) = map fst (fLearnableParams st)) \<and>
           map fst (fLearnableParams st') = map fst (fLearnableParams st)"
  using assms
proof (induction E K i out frame c st rule: frameLoop.induct)
  case (1 E K i out frame c st)
  show ?case
  proof (cases "frame < getBufferSize E")
    case False
    with "1.prems" have "fl = Completed" "c' = c" "st' = st"
      by (simp_all add: frameLoop.simps [of E K i out frame])
    with False show ?thesis by (intro exI [of _ "[]"]) simp
  next
    case True
    obtain c2 st2 where fb: "frameBody E K i out frame c st = (c2, st2)"
      by (cases "frameBody E K i out frame c st")
    from frameBody_history [OF fb] obtain e where
      e: "history st2 = history st @ [e]" "position e = (i, frame)" "h_count e = c2"
        "c2 = (if fgt (h_loss e) (kEpsilon K) then 0 else c + 1)"
        "h_params e = fLearnableParams st2"
        "fFile st2 = fFile st @ row_toks e"
        "map fst (fLearnableParams st2) = map fst (fLearnableParams st)"
      by blast
    show ?thesis
    proof (cases "20 < c2")
      case over: True
      with True fb "1.prems" have res: "fl = Returned" "c' = c2" "st' = st2"
        by (simp_all add: frameLoop.simps [of E K i out frame])
      show ?thesis
        using e over True by (intro exI [of _ "[e]"]) (simp add: res)
    next
      case under: False
      with True fb "1.prems" have
        run: "frameLoop E K i out (frame + 1) c2 st2 = (fl, c', st')"
        by (simp add: frameLoop.simps [of E K i out frame])
      from "1.IH" [OF True fb [symmetric] refl under run] obtain ext where
        h: "history st' = history st2 @ ext"
        and p: "map position ext = map (Pair i) [frame + 1..<frame + 1 + length ext]"
        and cf: "counts_follow (kEpsilon K) c2 ext"
        and lc: "c' = last_count c2 ext"
        and bl: "\<forall>e\<in>set (butlast ext). h_count e \<le> 20"
        and rt: "fl = Returned \<longrightarrow> ext \<noteq> [] \<and> 20 < h_count (last ext) \<and>
              frame + 1 + length ext \<le> getBufferSize E"
        and cp: "fl = Completed \<longrightarrow> frame + 1 + length ext = max (frame + 1) (getBufferSize E) \<and>
              (\<forall>e\<in>set ext. h_count e \<le> 20)"
        and fi: "fFile st' = fFile st2 @ concat (map row_toks ext)"
        and pa: "\<forall>e\<in>set ext. map fst (h_params e) = map fst (fLearnableParams st2)"
        and fs: "map fst (fLearnableParams st') = map fst (fLearnableParams st2)"
        by blast
      have c1: "history st' = history st @ e # ext" by (simp add: h e)
      have c2: "map position (e # ext) = map (Pair i) [frame..<frame + length (e # ext)]"
      proof -
        have "[frame..<frame + length (e # ext)] = frame # [frame + 1..<frame + 1 + length ext]"
          by (subst upt_rec) simp
        with p e(2) show ?thesis by (simp del: upt_Suc)
      qed
      have c3: "counts_follow (kEpsilon K) c (e # ext)" using cf e(3,4) by simp
      have c4: "c' = last_count c (e # ext)" using lc e(3) by simp
      have c5: "\<forall>x\<in>set (butlast (e # ext)). h_count x \<le> 20"
        using bl under e(3) by auto
      have c6: "fl = Returned \<longrightarrow> e # ext \<noteq> [] \<and> 20 < h_count (last (e # ext)) \<and>
              frame + length (e # ext) \<le> getBufferSize E"
        using rt by auto
      have c7: "fl = Completed \<longrightarrow> frame + length (e # ext) = max frame (getBufferSize E) \<and>
              (\<forall>x\<in>set (e # ext). h_count x \<le> 20)"
        using cp under e(3) True by auto
      have c8: "fFile st' = fFile st @ concat (map row_toks (e # ext))"
        by (simp add: fi e)
      have c9: "\<forall>x\<in>set (e # ext). map fst (h_params x) = map fst (fLearnableParams st)"
        using pa e(5,7) by auto
      have c10: "map fst (fLearnableParams st') = map fst (fLearnableParams st)"
        using fs e(7) by simp
      show ?thesis
        using c1 c2 c3 c4 c5 c6 c7 c8 c9 c10 by (intro exI [of _ "e # ext"]) blast
    qed
  qed
qed


lemma counts_follow_append:
  "counts_follow eps c (xs @ ys) =
     (counts_follow eps c xs \<and> counts_follow eps (last_count c xs) ys)"
  by (induction xs arbitrary: c) auto

lemma last_count_append: "last_count c (xs @ ys) = last_count (last_count c xs) ys"
  by (induction xs arbitrary: c) auto

lemma butlast_append_subset: "set (butlast (xs @ ys)) \<subseteq> set xs \<union> set (butlast ys)"
  by (auto simp: butlast_append dest: in_set_butlastD)

lemma schedule_from_unfold:
  "i \<le> kNumIterations K \<Longrightarrow>
   concat (map (\<lambda>j. map (Pair j) [0..<getBufferSize E]) [i..kNumIterations K]) =
     map (Pair i) [0..<getBufferSize E] @
     concat (map (\<lambda>j. map (Pair j) [0..<getBufferSize E]) [i + 1..kNumIterations K])"
  by (subst upto_rec1) simp_all

lemma iterationLoop_history:
  assumes "iterationLoop E K i c st = (res, c', st')"
  shows "\<exists>ext. history st' = history st @ ext \<and>
           map position ext = take (length ext)
             (concat (map (\<lambda>j. map (Pair j) [0..<getBufferSize E]) [i..kNumIterations K])) \<and>
           length ext \<le> length
             (concat (map (\<lambda>j. map (Pair j) [0..<getBufferSize E]) [i..kNumIterations K])) \<and>
           counts_follow (kEpsilon K) c ext \<and>
           c' = last_count c ext \<and>
           (\<forall>e\<in>set (butlast ext). h_count e \<le> 20) \<and>
           (res = CONVERGED \<longrightarrow> ext \<noteq> [] \<and> 20 < h_count (last ext)) \<and>
           (res = EXHAUSTED \<longrightarrow> length ext = length
              (concat (map (\<lambda>j. map (Pair j) [0..<getBufferSize E]) [i..kNumIterations K])) \<and>
              (\<forall>e\<in>set ext. h_count e \<le> 20)) \<and>
           fFile st' = fFile st @ concat (map row_toks ext) \<and>
           (\<forall>e\<in>set ext. map fst (h_params e) = map fst (fLearnableParams st)) \<and>
           map fst (fLearnableParams st') = map fst (fLearnableParams st)"
  using assms
proof (induction E K i c st rule: iterationLoop.induct)
  case (1 E K i c st)
  let ?bs = "getBufferSize E"
  let ?sched = "\<lambda>i. concat (map (\<lambda>j. map (Pair j) [0..<?bs]) [i..kNumIterations K])"
  show ?case
  proof (cases "i \<le> kNumIterations K")
    case False
    with "1.prems" have "res = EXHAUSTED" "c' = c" "st' = st"
      by (simp_all add: iterationLoop.simps [of E K i])
    with False show ?thesis by (intro exI [of _ "[]"]) simp
  next
    case True
    define st1 where "st1 = st\<lparr>fDSP := render E (fDSP st)\<rparr>"
    define out where "out = getOutput E (fDSP st1)"
    obtain fl c1 st2 where fl: "frameLoop E K i out 0 c st1 = (fl, c1, st2)"
      by (cases "frameLoop E K i out 0 c st1")
    from frameLoop_history [OF fl] obtain ext1 where
      h1: "history st2 = history st @ ext1"
      and p1: "map position ext1 = map (Pair i) [0..<length ext1]"
      and cf1: "counts_follow (kEpsilon K) c ext1"
      and lc1: "c1 = last_count c ext1"
      and bl1: "\<forall>e\<in>set (butlast ext1). h_count e \<le> 20"
      and rt1: "fl = Returned \<longrightarrow> ext1 \<noteq> [] \<and> 20 < h_count (last ext1) \<and> length ext1 \<le> ?bs"
      and cp1: "fl = Completed \<longrightarrow> length ext1 = ?bs \<and> (\<forall>e\<in>set ext1. h_count e \<le> 20)"
      and fi1: "fFile st2 = fFile st @ concat (map row_toks ext1)"
      and pa1: "\<forall>e\<in>set ext1. map fst (h_params e) = map fst (fLearnableParams st)"
      and fs1: "map fst (fLearnableParams st2) = map fst (fLearnableParams st)"
      by (auto simp: st1_def)
    note unf = schedule_from_unfold [OF True, of E]
    show ?thesis
    proof (cases fl)
      case Returned
      with True fl "1.prems" have res: "res = CONVERGED" "c' = c1" "st' = st2"
        by (simp_all add: iterationLoop.simps [of E K i] st1_def out_def Let_def)
      have le: "length ext1 \<le> ?bs" using rt1 Returned by simp
      have c2: "map position ext1 = take (length ext1) (?sched i)"
        using p1 le by (simp add: unf take_map min_def)
      have c3: "length ext1 \<le> length (?sched i)"
        using le by (simp add: unf)
      show ?thesis
        using h1 c2 c3 cf1 lc1 bl1 rt1 fi1 pa1 fs1 Returned
        by (intro exI [of _ ext1]) (simp add: res)
    next
      case Completed
      with True fl "1.prems" have
        run: "iterationLoop E K (i + 1) c1 st2 = (res, c', st')"
        by (simp add: iterationLoop.simps [of E K i] st1_def out_def Let_def)
      have len1: "length ext1 = ?bs" and low1: "\<forall>e\<in>set ext1. h_count e \<le> 20"
        using cp1 Completed by simp_all
      from "1.IH" [OF True st1_def out_def fl [symmetric] Completed refl run] obtain ext2 where
        h2: "history st' = history st2 @ ext2"
        and p2: "map position ext2 = take (length ext2) (?sched (i + 1))"
        and l2: "length ext2 \<le> length (?sched (i + 1))"
        and cf2: "counts_follow (kEpsilon K) c1 ext2"
        and lc2: "c' = last_count c1 ext2"
        and bl2: "\<forall>e\<in>set (butlast ext2). h_count e \<le> 20"
        and cv2: "res = CONVERGED \<longrightarrow> ext2 \<noteq> [] \<and> 20 < h_count (last ext2)"
        and ex2: "res = EXHAUSTED \<longrightarrow> length ext2 = length (?sched (i + 1)) \<and>
              (\<forall>e\<in>set ext2. h_count e \<le> 20)"
        and fi2: "fFile st' = fFile st2 @ concat (map row_toks ext2)"
        and pa2: "\<forall>e\<in>set ext2. map fst (h_params e) = map fst (fLearnableParams st2)"
        and fs2: "map fst (fLearnableParams st') = map fst (fLearnableParams st2)"
        by blast
      have p1': "map position ext1 = map (Pair i) [0..<?bs]" using p1 len1 by simp
      have d1: "history st' = history st @ ext1 @ ext2" by (simp add: h2 h1)
      have d2: "map position (ext1 @ ext2) = take (length (ext1 @ ext2)) (?sched i)"
        by (simp add: unf p1' p2 len1)
      have d3: "length (ext1 @ ext2) \<le> length (?sched i)"
        using l2 len1 by (simp add: unf)
      have d4: "counts_follow (kEpsilon K) c (ext1 @ ext2)"
        using cf1 cf2 lc1 by (simp add: counts_follow_append)
      have d5: "c' = last_count c (ext1 @ ext2)"
        using lc1 lc2 by (simp add: last_count_append)
      have d6: "\<forall>e\<in>set (butlast (ext1 @ ext2)). h_count e \<le> 20"
        using butlast_append_subset [of ext1 ext2] low1 bl2 by blast
      have d7: "res = CONVERGED \<longrightarrow> ext1 @ ext2 \<noteq> [] \<and> 20 < h_count (last (ext1 @ ext2))"
        using cv2 by simp
      have d8: "res = EXHAUSTED \<longrightarrow> length (ext1 @ ext2) = length (?sched i) \<and>
              (\<forall>e\<in>set (ext1 @ ext2). h_count e \<le> 20)"
      proof
        assume r: "res = EXHAUSTED"
        with ex2 have a: "length ext2 = length (?sched (i + 1))"
          and b: "\<forall>e\<in>set ext2. h_count e \<le> 20" by simp_all
        have "length (ext1 @ ext2) = length (?sched i)"
          using a len1 by (simp add: unf)
        moreover have "\<forall>e\<in>set (ext1 @ ext2). h_count e \<le> 20" using low1 b by auto
        ultimately show "length (ext1 @ ext2) = length (?sched i) \<and>
              (\<forall>e\<in>set (ext1 @ ext2). h_count e \<le> 20)" by blast
      qed
      have d9: "fFile st' = fFile st @ concat (map row_toks (ext1 @ ext2))"
        by (simp add: fi2 fi1)
      have d10: "\<forall>e\<in>set (ext1 @ ext2). map fst (h_params e) = map fst (fLearnableParams st)"
        using pa1 pa2 fs1 by auto
      have d11: "map fst (fLearnableParams st') = map fst (fLearnableParams st)"
        using fs2 fs1 by simp
      show ?thesis
        using d1 d2 d3 d4 d5 d6 d7 d8 d9 d10 d11 by (intro exI [of _ "ext1 @ ext2"]) blast
    qed
  qed
qed

section \<open>Properties of one frame\<close>

lemma fle_not_fgt: "fle x y \<Longrightarrow> \<not> fgt x y"
  by (cases x; cases y) auto

lemma updateLoop_params:
  "fst (updateLoop E K ps d) =
     map (\<lambda>(a, p). (a, p\<lparr>p_value := fsub (p_value p) (fmul (kAlpha K) (p_gradient p))\<rparr>)) ps"
proof (induction ps arbitrary: d)
  case Nil
  then show ?case by simp
next
  case (Cons ap ps)
  obtain a p where ap: "ap = (a, p)" by (cases ap)
  let ?d = "setParamValue E a (fsub (p_value p) (fmul (kAlpha K) (p_gradient p))) d"
  from Cons.IH [of ?d] show ?case
    by (cases "updateLoop E K ps ?d") (simp add: ap Let_def)
qed

lemma updateLoop_pushed:
  "snd (updateLoop E K ps d) =
     fold (\<lambda>(a, p). setParamValue E a (p_value p)) (fst (updateLoop E K ps d)) d"
proof (induction ps arbitrary: d)
  case Nil
  then show ?case by simp
next
  case (Cons ap ps)
  obtain a p where ap: "ap = (a, p)" by (cases ap)
  let ?d = "setParamValue E a (fsub (p_value p) (fmul (kAlpha K) (p_gradient p))) d"
  from Cons.IH [of ?d] show ?case
    by (cases "updateLoop E K ps ?d") (simp add: ap Let_def)
qed

lemma gradientLoop_nth_value:
  "n < length ps \<Longrightarrow>
   p_value (snd (gradientLoop K out frame delta k ps ! n)) = p_value (snd (ps ! n))"
  using gradientLoop_value [of K out frame delta k ps]
  by (metis comp_apply gradientLoop_length nth_map)

lemma gradientLoop_nth_fst:
  "n < length ps \<Longrightarrow> fst (gradientLoop K out frame delta k ps ! n) = fst (ps ! n)"
  using gradientLoop_fst [of K out frame delta k ps]
  by (metis gradientLoop_length nth_map)

lemma gradientLoop_nth_of:
  "n < length ps \<Longrightarrow>
   p_gradient (snd (gradientLoop K out frame delta k ps ! n)) =
     gradient_of (kLossFunction K) (out (DIFFERENTIATED + (k + n)) frame) delta"
  by (simp add: gradientLoop_nth gradient_of_def)

lemma frameBody_loss:
  "frameBody E K i out frame c st = (c', st') \<Longrightarrow> fLoss st' = fLoss (computeLoss K out frame st)"
  by (auto simp: frameBody_eq Let_def)

lemma frameBody_below:
  assumes "frameBody E K i out frame c st = (c', st')"
    and "\<not> fgt (fLoss st') (kEpsilon K)"
  shows "c' = c + 1 \<and> fLearnableParams st' = fLearnableParams st \<and> fDSP st' = fDSP st"
  using assms frameBody_loss [OF assms(1)]
  by (auto simp: frameBody_eq Let_def split: if_splits)

lemma frameBody_above:
  assumes "frameBody E K i out frame c st = (c', st')"
    and "fgt (fLoss st') (kEpsilon K)"
  shows "c' = 0 \<and>
         fLearnableParams st' =
           fst (updateLoop E K
                  (gradientLoop K out frame (fsub (out LEARNABLE frame) (out GROUND_TRUTH frame)) 0
                     (fLearnableParams st)) (fDSP st)) \<and>
         fDSP st' = fold (\<lambda>(a, p). setParamValue E a (p_value p)) (fLearnableParams st') (fDSP st)"
proof -
  let ?g = "gradientLoop K out frame (fsub (out LEARNABLE frame) (out GROUND_TRUTH frame)) 0
              (fLearnableParams st)"
  obtain ps d where u: "updateLoop E K ?g (fDSP st) = (ps, d)"
    by (cases "updateLoop E K ?g (fDSP st)")
  from updateLoop_pushed [of E K ?g "fDSP st"] u
  have d: "d = fold (\<lambda>(a, p). setParamValue E a (p_value p)) ps (fDSP st)" by simp
  from assms frameBody_loss [OF assms(1)] u d show ?thesis
    by (auto simp: frameBody_eq Let_def updateParams_def computeGradient_def split: if_splits)
qed

lemma frameBody_above_nth:
  assumes "frameBody E K i out frame c st = (c', st')"
    and "fgt (fLoss st') (kEpsilon K)"
    and "k < length (fLearnableParams st)"
  shows "fst (fLearnableParams st' ! k) = fst (fLearnableParams st ! k) \<and>
         p_gradient (snd (fLearnableParams st' ! k)) =
           gradient_of (kLossFunction K) (out (DIFFERENTIATED + k) frame)
             (fsub (out LEARNABLE frame) (out GROUND_TRUTH frame)) \<and>
         p_value (snd (fLearnableParams st' ! k)) =
           fsub (p_value (snd (fLearnableParams st ! k)))
             (fmul (kAlpha K) (p_gradient (snd (fLearnableParams st' ! k))))"
proof -
  let ?delta = "fsub (out LEARNABLE frame) (out GROUND_TRUTH frame)"
  let ?g = "gradientLoop K out frame ?delta 0 (fLearnableParams st)"
  have k: "k < length ?g" using assms(3) by simp
  from frameBody_above [OF assms(1,2)]
  have "fLearnableParams st' ! k =
      (\<lambda>(a, p). (a, p\<lparr>p_value := fsub (p_value p) (fmul (kAlpha K) (p_gradient p))\<rparr>)) (?g ! k)"
    using k by (simp add: updateLoop_params)
  then have eq: "fLearnableParams st' ! k =
      (fst (?g ! k), (snd (?g ! k))\<lparr>p_value :=
         fsub (p_value (snd (?g ! k))) (fmul (kAlpha K) (p_gradient (snd (?g ! k))))\<rparr>)"
    by (simp add: case_prod_unfold)
  show ?thesis
    using gradientLoop_nth_of [OF assms(3), of K out frame ?delta 0]
      gradientLoop_nth_value [OF assms(3), of K out frame ?delta 0]
      gradientLoop_nth_fst [OF assms(3), of K out frame ?delta 0]
    by (simp add: eq)
qed

lemma computeGradient_nth:
  "k < length (fLearnableParams st) \<Longrightarrow>
   p_gradient (snd (fLearnableParams (computeGradient K out frame st) ! k)) =
     gradient_of (kLossFunction K) (out (DIFFERENTIATED + k) frame)
       (fsub (out LEARNABLE frame) (out GROUND_TRUTH frame)) \<and>
   fst (fLearnableParams (computeGradient K out frame st) ! k) = fst (fLearnableParams st ! k)"
  using gradientLoop_nth_of [of k "fLearnableParams st" K out frame _ 0]
    gradientLoop_nth_fst [of k "fLearnableParams st" K out frame _ 0]
  by (simp add: computeGradient_def Let_def)

section \<open>Properties of a run\<close>

lemma length_schedule: "length (schedule E K) = nat (kNumIterations K) * getBufferSize E"
proof -
  have "length (schedule E K) = length [1..kNumIterations K] * getBufferSize E"
    by (simp add: schedule_def length_concat comp_def sum_list_triv)
  then show ?thesis by simp
qed

lemma schedule_Pair:
  "schedule E K =
     concat (map (\<lambda>j. map (Pair j) [0..<getBufferSize E]) [1..kNumIterations K])"
  by (simp add: schedule_def)

lemma run_history:
  assumes "doGradientDescent E K st = (res, c, st')"
  shows "map position (history st') = take (length (history st')) (schedule E K) \<and>
         length (history st') \<le> length (schedule E K) \<and>
         counts_follow (kEpsilon K) 0 (history st') \<and>
         c = last_count 0 (history st') \<and>
         (\<forall>e\<in>set (butlast (history st')). h_count e \<le> 20) \<and>
         (res = CONVERGED \<longrightarrow> history st' \<noteq> [] \<and> 20 < h_count (last (history st'))) \<and>
         (res = EXHAUSTED \<longrightarrow> length (history st') = length (schedule E K) \<and>
            (\<forall>e\<in>set (history st'). h_count e \<le> 20)) \<and>
         fFile st' = fFile st @ concat (map row_toks (history st')) \<and>
         (\<forall>e\<in>set (history st'). map fst (h_params e) = map fst (fLearnableParams st)) \<and>
         map fst (fLearnableParams st') = map fst (fLearnableParams st)"
proof -
  from assms have "iterationLoop E K 1 0 (st\<lparr>history := []\<rparr>) = (res, c, st')"
    by (simp add: doGradientDescent_def)
  from iterationLoop_history [OF this] show ?thesis
    by (simp add: schedule_Pair)
qed





lemma one_to_21:
  "map int [Suc 0..<22] = [1, 2, 3, 4, 5, 6, 7, 8, 9, 10, 11, 12, 13, 14, 15, 16, 17, 18, 19, 20, 21]"
  by (simp add: upt_rec [of _ 22])

lemma counts_follow_nth:
  "counts_follow eps c es \<Longrightarrow> Suc n < length es \<Longrightarrow>
   h_count (es ! Suc n) = (if fgt (h_loss (es ! Suc n)) eps then 0 else h_count (es ! n) + 1)"
proof (induction es arbitrary: c n)
  case Nil
  then show ?case by simp
next
  case (Cons e es)
  show ?case
  proof (cases n)
    case 0
    with Cons.prems show ?thesis by (cases es) auto
  next
    case (Suc m)
    note cf = Cons.prems(1) [unfolded counts_follow.simps, THEN conjunct2]
    from Cons.prems Suc have "Suc m < length es" by simp
    from Cons.IH [OF cf this] show ?thesis by (simp add: Suc)
  qed
qed

lemma counts_follow_first:
  "counts_follow eps c es \<Longrightarrow> es \<noteq> [] \<Longrightarrow>
   h_count (es ! 0) = (if fgt (h_loss (es ! 0)) eps then 0 else c + 1)"
  by (cases es) auto

section \<open>Properties of initialisation\<close>

lemma registerLoop_fresh:
  assumes "distinct (map (getParamAddress E d) [p..<getParamsCount E d])"
    and "getParamAddress E d ` {p..<getParamsCount E d} \<inter> fst ` set reg = {}"
  shows "map fst (registerLoop E d p reg) =
           map fst reg @ map (getParamAddress E d) [p..<getParamsCount E d]"
  using assms
proof (induction E d p reg rule: registerLoop.induct)
  case (1 E d p reg)
  show ?case
  proof (cases "p < getParamsCount E d")
    case False
    then show ?thesis by (simp add: registerLoop.simps [of E d p])
  next
    case True
    let ?a = "getParamAddress E d p"
    let ?reg = "insert_param (?a, \<lparr>p_value = getParamValue E d ?a, p_gradient = Finite 0\<rparr>) reg"
    have up: "[p..<getParamsCount E d] = p # [p + 1..<getParamsCount E d]"
      using True by (rule upt_conv_Cons [simplified Suc_eq_plus1])
    have "?a \<in> getParamAddress E d ` {p..<getParamsCount E d}" using True by simp
    with "1.prems"(2) have fresh: "?a \<notin> fst ` set reg" by blast
    then have reg: "map fst ?reg = map fst reg @ [?a]" by (simp add: insert_param_def)
    have d: "distinct (map (getParamAddress E d) [p + 1..<getParamsCount E d])"
      using "1.prems"(1) unfolding up by simp
    have na: "?a \<notin> getParamAddress E d ` {p + 1..<getParamsCount E d}"
      using "1.prems"(1) unfolding up by auto
    have sub: "getParamAddress E d ` {p + 1..<getParamsCount E d} \<subseteq>
        getParamAddress E d ` {p..<getParamsCount E d}"
      by (intro image_mono) auto
    have fs: "fst ` set ?reg = insert ?a (fst ` set reg)"
      using fresh by (simp add: insert_param_def)
    have i: "getParamAddress E d ` {p + 1..<getParamsCount E d} \<inter> fst ` set ?reg = {}"
    proof -
      have "getParamAddress E d ` {p + 1..<getParamsCount E d} \<inter> fst ` set reg = {}"
        using sub "1.prems"(2) by (meson disjoint_iff subsetD)
      with na show ?thesis by (simp add: fs)
    qed
    have "registerLoop E d p reg = registerLoop E d (p + 1) ?reg"
      using True by (simp add: registerLoop.simps [of E d p] Let_def)
    with "1.IH" [OF True refl d i] show ?thesis
      by (simp only: reg up append_assoc append_Cons append_Nil list.map)
  qed
qed

lemma initialise_params:
  "fLearnableParams (initialise E st) =
     registerLoop E (buildGraph E (fInputDSPPath st) (fGroundTruthDSPPath st)
       (fDifferentiableDSPPath st) (fDSP st)) 0 (fLearnableParams st)"
  by (simp add: initialise_def Let_def split: prod.splits)

section \<open>The small graph\<close>

lemma demo_object_params:
  "fLearnableParams (demo_object bs v) =
     [(''/demo/gain'', \<lparr>p_value = Finite v, p_gradient = Finite 0\<rparr>)]"
  by (simp add: demo_object_def initialise_def construct_def demo_env_def Let_def
      registerLoop.simps insert_param_def split: prod.splits)

lemma demo_object_dsp: "fDSP (demo_object bs v) = \<lparr>zone = Finite v, block = Finite 0\<rparr>"
  by (simp add: demo_object_def initialise_def construct_def demo_env_def Let_def
      split: prod.splits)

lemma demo_object2_params:
  "fLearnableParams demo_object2 =
     [(''/demo/bias'', \<lparr>p_value = Finite (1/4), p_gradient = Finite 0\<rparr>),
      (''/demo/gain'', \<lparr>p_value = Finite (1/4), p_gradient = Finite 0\<rparr>)]"
  by (simp add: demo_object2_def demo_env2_def initialise_params construct_def demo_env_def
      registerLoop.simps insert_param_def Let_def)

lemmas demo_eval =
  doGradientDescent_def iterationLoop.simps frameLoop.simps frameBody_def
  computeLoss_def computeGradient_def updateParams_def reportState_def
  demo_env_def demo_constants_def demo_object_def initialise_def construct_def
  registerLoop.simps insert_param_def
  LEARNABLE_def GROUND_TRUTH_def DIFFERENTIATED_def


lemma learning_run_summary:
  "summary learning_run =
     (CONVERGED, 21, [
       (1, 0, Finite (1/16), 0), (1, 1, Finite (1/16), 0), (1, 2, Finite (1/16), 0),
       (1, 3, Finite (1/16), 0), (2, 0, Finite 0, 1), (2, 1, Finite 0, 2),
       (2, 2, Finite 0, 3), (2, 3, Finite 0, 4), (3, 0, Finite 0, 5),
       (3, 1, Finite 0, 6), (3, 2, Finite 0, 7), (3, 3, Finite 0, 8),
       (4, 0, Finite 0, 9), (4, 1, Finite 0, 10), (4, 2, Finite 0, 11),
       (4, 3, Finite 0, 12), (5, 0, Finite 0, 13), (5, 1, Finite 0, 14),
       (5, 2, Finite 0, 15), (5, 3, Finite 0, 16), (6, 0, Finite 0, 17),
       (6, 1, Finite 0, 18), (6, 2, Finite 0, 19), (6, 3, Finite 0, 20),
       (7, 0, Finite 0, 21)])"
  by (simp add: learning_run_def summary_def demo_eval round32_values)

lemma summary_losses:
  "map h_loss (history (snd (snd r))) = map (\<lambda>(i, f, l, c). l) (snd (snd (summary r)))"
  by (simp add: summary_def comp_def)

lemma summary_iterations:
  "map h_iteration (history (snd (snd r))) = map (\<lambda>(i, f, l, c). i) (snd (snd (summary r)))"
  by (simp add: summary_def comp_def)

lemma summary_counts:
  "map h_count (history (snd (snd r))) = map (\<lambda>(i, f, l, c). c) (snd (snd (summary r)))"
  by (simp add: summary_def comp_def)

section \<open>Properties of the arithmetic of one frame\<close>

lemma loss_value:
  assumes "out LEARNABLE frame = Finite observed" and "out GROUND_TRUTH frame = Finite target"
  shows "fLoss (computeLoss K out frame st) =
           (case kLossFunction K of
              L1_NORM \<Rightarrow> fabsf (round32 (observed - target))
            | L2_NORM \<Rightarrow> powf_2 (round32 (observed - target)))"
  using assms by (simp add: computeLoss_def Let_def split: LossFunction.splits)

lemma loss_frame:
  "computeLoss K out frame st = st\<lparr>fLoss := fLoss (computeLoss K out frame st)\<rparr>"
  by (simp add: computeLoss_def Let_def split: LossFunction.splits)

lemma l1_exact:
  assumes "x \<noteq> 0" and "round32 y = Finite y" and "round32 (y * x) = Finite (y * x)"
  shows "fdiv (fmul (Finite y) (Finite x)) (fabsf (Finite x)) = Finite (y * sgn x)"
proof (cases "0 < x")
  case True
  then show ?thesis using assms by simp
next
  case False
  with assms(1) have neg: "x < 0" by simp
  then have "y * x / \<bar>x\<bar> = - y" by simp
  with assms neg round32_minus [OF assms(2)] show ?thesis by simp
qed

lemma scenario_delta: "fsub (Finite 1) (Finite (1 / 2)) = Finite (1 / 2)"
  by (simp add: round32_values)

lemma scenario_loss: "powf_2 (Finite (1 / 2)) = Finite (1 / 4)"
  by (simp add: round32_values)

lemma scenario_gradient: "fmul (fmul (Finite 2) (Finite 1)) (Finite (1 / 2)) = Finite 1"
  by (simp add: round32_values)

lemma scenario_update:
  "fsub (round32 (3 / 10)) (fmul (round32 (1 / 10)) (Finite 1)) = Finite (13421774 / 2 ^ 26)"
  by (simp add: round32_eval)

lemma scenario_gap:
  "fsub (Finite (13421774 / 2 ^ 26)) (round32 (1 / 5)) = Finite (1 / 2 ^ 26)"
  by (simp add: round32_eval)

section \<open>Properties of the two streams\<close>

lemma headerLoop_eq:
  "headerLoop reg (os, fl) =
     (os @ concat (map (\<lambda>(a, p). [Str ''Learnable parameter: '', Str a, Str '', value: '',
                                   Flt (p_value p), Str newline]) reg),
      fl @ concat (map (\<lambda>(a, p). [Str '',gradient_'', Str (label a), Str '','',
                                   Str (label a)]) reg))"
  by (induction reg arbitrary: os fl) auto

lemma initialise_file:
  "fFile (initialise E st) = header_toks (fLearnableParams (initialise E st))"
  by (simp add: initialise_def Let_def headerLoop_eq header_toks_def)

lemma stream_text_append [simp]:
  "stream_text fi ff (xs @ ys) = stream_text fi ff xs @ stream_text fi ff ys"
  by (simp add: stream_text_def)

lemma stream_text_Cons [simp]:
  "stream_text fi ff (x # xs) = show_tok fi ff x @ stream_text fi ff xs"
  by (simp add: stream_text_def)

lemma stream_text_Nil [simp]: "stream_text fi ff [] = []"
  by (simp add: stream_text_def)

lemma stream_text_concat:
  "stream_text fi ff (concat xss) = concat (map (stream_text fi ff) xss)"
  by (induction xss) auto

lemma join_commas_Cons:
  "join_commas (c # cs) = c @ concat (map (\<lambda>d. '','' @ d) cs)"
  by (induction cs arbitrary: c) auto

lemma join_commas_append:
  "cs \<noteq> [] \<Longrightarrow> join_commas (cs @ ds) = join_commas cs @ concat (map (\<lambda>d. '','' @ d) ds)"
  by (cases cs) (simp_all add: join_commas_Cons)

lemma header_text:
  "stream_text fi ff (header_toks reg) = join_commas (header_cells reg) @ newline"
proof -
  have "stream_text fi ff
          (concat (map (\<lambda>(a, p). [Str '',gradient_'', Str (label a), Str '','', Str (label a)]) reg)) =
        concat (map (\<lambda>d. '','' @ d) (concat (map (\<lambda>(a, p). [''gradient_'' @ label a, label a]) reg)))"
    by (induction reg) auto
  then show ?thesis
    using join_commas_append [of "[''iteration'', ''loss'']"
        "concat (map (\<lambda>(a, p). [''gradient_'' @ label a, label a]) reg)"]
    by (simp add: header_toks_def header_cells_def)
qed

lemma row_text:
  "stream_text fi ff (row_toks e) = join_commas (row_cells fi ff e) @ newline"
proof -
  have "stream_text fi ff (param_toks ps) =
        concat (map (\<lambda>d. '','' @ d) (concat (map (\<lambda>(a, p). [ff (p_gradient p), ff (p_value p)]) ps)))"
    for ps
    by (induction ps) (auto simp: param_toks_def)
  then show ?thesis
    using join_commas_append [of "[fi (h_iteration e), ff (h_loss e)]"
        "concat (map (\<lambda>(a, p). [ff (p_gradient p), ff (p_value p)]) (h_params e))"]
    by (simp add: row_toks_def row_cells_def)
qed

lemma length_header_cells: "length (header_cells reg) = 2 + 2 * length reg"
  by (induction reg) (auto simp: header_cells_def)

lemma length_row_cells: "length (row_cells fi ff e) = 2 + 2 * length (h_params e)"
proof -
  have "length (concat (map (\<lambda>(a, p). [ff (p_gradient p), ff (p_value p)]) ps)) = 2 * length ps"
    for ps :: registry
    by (induction ps) auto
  then show ?thesis by (simp add: row_cells_def)
qed

lemma commas_append [simp]: "commas (xs @ ys) = commas xs + commas ys"
  by (simp add: commas_def)

lemma commas_free: "CHR '','' \<notin> set c \<Longrightarrow> commas c = 0"
  by (simp add: commas_def)

lemma commas_Cons [simp]:
  "commas (x # xs) = (if x = CHR '','' then Suc (commas xs) else commas xs)"
  by (simp add: commas_def)

lemma commas_tail:
  "\<forall>c\<in>set cs. CHR '','' \<notin> set c \<Longrightarrow> commas (concat (map ((#) CHR '','') cs)) = length cs"
  by (induction cs) (simp_all add: commas_free commas_def)

lemma commas_join:
  assumes "\<forall>c\<in>set cs. CHR '','' \<notin> set c" and "cs \<noteq> []"
  shows "commas (join_commas cs) = length cs - 1"
proof (cases cs)
  case Nil
  with assms(2) show ?thesis by simp
next
  case (Cons c ds)
  with assms(1) have "commas c = 0" and "\<forall>d\<in>set ds. CHR '','' \<notin> set d"
    by (simp_all add: commas_free)
  then show ?thesis by (simp add: Cons join_commas_Cons commas_tail)
qed

lemma header_cells_free:
  assumes "\<forall>a\<in>fst ` set reg. CHR '','' \<notin> set (label a)"
  shows "\<forall>c\<in>set (header_cells reg). CHR '','' \<notin> set c"
  using assms by (induction reg) (auto simp: header_cells_def)

lemma numbers_append [simp]: "numbers (xs @ ys) = numbers xs @ numbers ys"
  by (simp add: numbers_def)

lemma numbers_Cons [simp]:
  "numbers (x # xs) = (if is_number x then x # numbers xs else numbers xs)"
  by (simp add: numbers_def)

lemma numbers_Nil [simp]: "numbers [] = []"
  by (simp add: numbers_def)

lemma written_append [simp]: "written xs (xs @ ys) = ys"
  by (simp add: written_def)




section \<open>The runs of one block\<close>

lemma short_run_file:
  "stream_text demo_fi demo_ff (fFile (snd (snd short_run))) =
     ''iteration,loss,gradient_gain,gain'' @ newline @
     ''1,0.0625,-0.5,0.3125'' @ newline @
     ''1,0.0625,-0.5,0.375'' @ newline"
  by (simp add: short_run_def demo_eval label_def find_last_of_def demo_fi_def demo_ff_def
      round32_values)

lemma short_run_summary:
  "summary short_run = (EXHAUSTED, 0, [(1, 0, Finite (1/16), 0), (1, 1, Finite (1/16), 0)])"
  by (simp add: short_run_def summary_def demo_eval round32_values)


section \<open>The claims\<close>

text \<open>
  Claim C5, as the claim states it, fails on finite samples whose difference or square
  leaves the range of \<^verbatim>\<open>FAUSTFLOAT\<close>. Under the L2 loss the samples \<open>2\<^sup>7\<^sup>0\<close> and \<open>0\<close> give the
  loss \<open>+\<infinity>\<close>, not the square \<open>2\<^sup>1\<^sup>4\<^sup>0\<close> of their difference, and the samples \<open>2\<^sup>-\<^sup>8\<^sup>0\<close> and \<open>0\<close>
  give the loss \<open>0\<close> although the difference is not zero; under the L1 loss the largest float
  and its negative give the loss \<open>+\<infinity>\<close>.
\<close>

theorem loss_evaluator_counterexample:
  "fLoss (computeLoss (demo_constants L2_NORM (Finite (1/8)) 10)
            (demo_frame (Finite 0) (Finite (2 ^ 70)) (Finite 1)) 0 (demo_object 4 (1/4))) = PosInf \<and>
   fLoss (computeLoss (demo_constants L2_NORM (Finite (1/8)) 10)
            (demo_frame (Finite 0) (Finite (2 ^ 70)) (Finite 1)) 0 (demo_object 4 (1/4))) \<noteq>
     Finite ((2 ^ 70 - 0)\<^sup>2) \<and>
   fLoss (computeLoss (demo_constants L2_NORM (Finite (1/8)) 10)
            (demo_frame (Finite 0) (Finite (1 / 2 ^ 80)) (Finite 1)) 0 (demo_object 4 (1/4))) =
     Finite 0 \<and>
   fLoss (computeLoss (demo_constants L2_NORM (Finite (1/8)) 10)
            (demo_frame (Finite 0) (Finite (1 / 2 ^ 80)) (Finite 1)) 0 (demo_object 4 (1/4))) \<noteq>
     Finite ((1 / 2 ^ 80 - 0)\<^sup>2) \<and>
   fLoss (computeLoss (demo_constants L1_NORM (Finite (1/8)) 10)
            (demo_frame (Finite (- (2 ^ 128 - 2 ^ 104))) (Finite (2 ^ 128 - 2 ^ 104)) (Finite 1))
            0 (demo_object 4 (1/4))) = PosInf \<and>
   fLoss (computeLoss (demo_constants L1_NORM (Finite (1/8)) 10)
            (demo_frame (Finite (- (2 ^ 128 - 2 ^ 104))) (Finite (2 ^ 128 - 2 ^ 104)) (Finite 1))
            0 (demo_object 4 (1/4))) \<noteq>
     Finite \<bar>(2 ^ 128 - 2 ^ 104) - (- (2 ^ 128 - 2 ^ 104))\<bar>"
  by (simp add: computeLoss_def demo_constants_def demo_frame_def LEARNABLE_def GROUND_TRUTH_def
      round32_eval)

text \<open>
  Claim C5, amended. On a frame with finite observed and target samples \<^verbatim>\<open>computeLoss\<close>
  stores \<open>|delta|\<close> under L1 and the square of \<open>delta\<close> under L2, where \<open>delta\<close> is the
  difference \<open>observed - target\<close> rounded to \<^verbatim>\<open>FAUSTFLOAT\<close> and the square is rounded to
  \<^verbatim>\<open>FAUSTFLOAT\<close> again, so that the stored loss can be \<open>+\<infinity>\<close> and can be \<open>0\<close> for a nonzero
  \<open>delta\<close>. The stored loss is never negative and never NaN, and it is the real number
  \<open>|observed - target|\<close>, or \<open>(observed - target)\<^sup>2\<close>, whenever the difference, and under L2
  also its square, is a number of the type. Nothing but the stored loss changes.
\<close>

theorem loss_evaluator:
  assumes "out LEARNABLE frame = Finite observed"
    and "out GROUND_TRUTH frame = Finite target"
  shows "computeLoss K out frame st =
           st\<lparr>fLoss := (case kLossFunction K of
                          L1_NORM \<Rightarrow> fabsf (round32 (observed - target))
                        | L2_NORM \<Rightarrow> powf_2 (round32 (observed - target)))\<rparr> \<and>
         fle (Finite 0) (fLoss (computeLoss K out frame st)) \<and>
         fLoss (computeLoss K out frame st) \<noteq> NaN \<and>
         (kLossFunction K = L1_NORM \<and>
          round32 (observed - target) = Finite (observed - target) \<longrightarrow>
            fLoss (computeLoss K out frame st) = Finite \<bar>observed - target\<bar>) \<and>
         (kLossFunction K = L2_NORM \<and>
          round32 (observed - target) = Finite (observed - target) \<and>
          round32 ((observed - target)\<^sup>2) = Finite ((observed - target)\<^sup>2) \<longrightarrow>
            fLoss (computeLoss K out frame st) = Finite ((observed - target)\<^sup>2))"
proof -
  let ?d = "round32 (observed - target)"
  note v = loss_value [where out = out and frame = frame and K = K and st = st, OF assms]
  have d: "?d \<noteq> NaN" by (rule round32_not_NaN)
  have a: "computeLoss K out frame st =
           st\<lparr>fLoss := (case kLossFunction K of
                          L1_NORM \<Rightarrow> fabsf ?d | L2_NORM \<Rightarrow> powf_2 ?d)\<rparr>"
    using loss_frame [of K out frame st] by (simp add: v)
  have b: "fle (Finite 0) (fLoss (computeLoss K out frame st))"
    using fle_zero_fabsf [OF d] fle_zero_powf_2 [OF d]
    by (simp add: v split: LossFunction.splits)
  have c: "fLoss (computeLoss K out frame st) \<noteq> NaN"
    using b by (cases "fLoss (computeLoss K out frame st)") auto
  have e: "kLossFunction K = L1_NORM \<and> ?d = Finite (observed - target) \<longrightarrow>
      fLoss (computeLoss K out frame st) = Finite \<bar>observed - target\<bar>"
    by (simp add: v)
  have f: "kLossFunction K = L2_NORM \<and> ?d = Finite (observed - target) \<and>
      round32 ((observed - target)\<^sup>2) = Finite ((observed - target)\<^sup>2) \<longrightarrow>
      fLoss (computeLoss K out frame st) = Finite ((observed - target)\<^sup>2)"
    by (simp add: v power2_eq_square)
  from a b c e f show ?thesis by blast
qed

theorem loss_evaluator_witness:
  "fLoss (computeLoss (demo_constants L1_NORM (Finite (1/8)) 10)
            (demo_frame (Finite (1/2)) (Finite 1) (Finite 1)) 0 (demo_object 4 (1/4))) =
     Finite (1/2) \<and>
   fLoss (computeLoss (demo_constants L2_NORM (Finite (1/8)) 10)
            (demo_frame (Finite (1/2)) (Finite 1) (Finite 1)) 0 (demo_object 4 (1/4))) =
     Finite (1/4) \<and>
   fle (Finite 0)
     (fLoss (computeLoss (demo_constants L2_NORM (Finite (1/8)) 10)
               (demo_frame (Finite 0) (Finite (2 ^ 70)) (Finite 1)) 0 (demo_object 4 (1/4)))) \<and>
   computeLoss (demo_constants L2_NORM (Finite (1/8)) 10)
     (demo_frame (Finite (1/2)) (Finite 1) (Finite 1)) 0 (demo_object 4 (1/4)) =
     (demo_object 4 (1/4))\<lparr>fLoss := Finite (1/4)\<rparr>"
proof -
  let ?K1 = "demo_constants L1_NORM (Finite (1/8)) 10"
  let ?K2 = "demo_constants L2_NORM (Finite (1/8)) 10"
  let ?out = "demo_frame (Finite (1/2)) (Finite 1) (Finite 1)"
  let ?big = "demo_frame (Finite 0) (Finite (2 ^ 70)) (Finite 1)"
  let ?st = "demo_object 4 (1/4)"
  have s: "?out LEARNABLE 0 = Finite 1" "?out GROUND_TRUTH 0 = Finite (1/2)"
      "?big LEARNABLE 0 = Finite (2 ^ 70)" "?big GROUND_TRUTH 0 = Finite 0"
    by (simp_all add: demo_frame_def LEARNABLE_def GROUND_TRUTH_def)
  have K: "kLossFunction ?K1 = L1_NORM" "kLossFunction ?K2 = L2_NORM"
    by (simp_all add: demo_constants_def)
  have r: "round32 (1 - 1 / 2) = Finite (1 - 1 / 2)"
      "round32 ((1 - 1 / 2)\<^sup>2) = Finite ((1 - 1 / 2)\<^sup>2)"
    by (simp_all add: round32_values power2_eq_square)
  from loss_evaluator [where out = ?out and frame = 0 and K = ?K1 and st = ?st, OF s(1,2)]
    K(1) r(1)
  have a: "fLoss (computeLoss ?K1 ?out 0 ?st) = Finite (1/2)" by simp
  from loss_evaluator [where out = ?out and frame = 0 and K = ?K2 and st = ?st, OF s(1,2)]
    K(2) r
  have b: "fLoss (computeLoss ?K2 ?out 0 ?st) = Finite (1/4)"
    and d: "computeLoss ?K2 ?out 0 ?st = ?st\<lparr>fLoss := Finite (1/4)\<rparr>"
    by (simp_all add: power2_eq_square round32_values)
  from loss_evaluator [where out = ?big and frame = 0 and K = ?K2 and st = ?st, OF s(3,4)]
  have c: "fle (Finite 0) (fLoss (computeLoss ?K2 ?big 0 ?st))" by blast
  from a b c d show ?thesis by blast
qed

text \<open>
  Claim C3, as the claim states it, fails in its last part: \<open>d * delta / |delta|\<close> is not
  always \<open>d * sign(delta)\<close>, because the product \<open>d * delta\<close> is rounded to \<^verbatim>\<open>FAUSTFLOAT\<close> before
  the division. With \<open>d = 2\<^sup>1\<^sup>0\<^sup>0\<close> and \<open>delta = 2\<^sup>4\<^sup>0\<close> the product overflows and the gradient is
  \<open>+\<infinity>\<close>; with \<open>d = 2\<^sup>-\<^sup>1\<^sup>0\<^sup>0\<close> and \<open>delta = 2\<^sup>-\<^sup>6\<^sup>0\<close> the product underflows and the gradient
  is \<open>0\<close>.
\<close>

theorem l1_gradient_counterexample:
  "p_gradient (snd (fLearnableParams
     (computeGradient (demo_constants L1_NORM (Finite (1/8)) 10)
        (demo_frame (Finite 0) (Finite (2 ^ 40)) (Finite (2 ^ 100))) 0 (demo_object 4 (1/4)))
       ! 0)) = PosInf \<and>
   p_gradient (snd (fLearnableParams
     (computeGradient (demo_constants L1_NORM (Finite (1/8)) 10)
        (demo_frame (Finite 0) (Finite (2 ^ 40)) (Finite (2 ^ 100))) 0 (demo_object 4 (1/4)))
       ! 0)) \<noteq> Finite (2 ^ 100 * sgn (2 ^ 40)) \<and>
   p_gradient (snd (fLearnableParams
     (computeGradient (demo_constants L1_NORM (Finite (1/8)) 10)
        (demo_frame (Finite 0) (Finite (1 / 2 ^ 60)) (Finite (1 / 2 ^ 100))) 0
        (demo_object 4 (1/4))) ! 0)) = Finite 0 \<and>
   p_gradient (snd (fLearnableParams
     (computeGradient (demo_constants L1_NORM (Finite (1/8)) 10)
        (demo_frame (Finite 0) (Finite (1 / 2 ^ 60)) (Finite (1 / 2 ^ 100))) 0
        (demo_object 4 (1/4))) ! 0)) \<noteq> Finite (1 / 2 ^ 100 * sgn (1 / 2 ^ 60))"
  by (simp add: computeGradient_def demo_object_params demo_constants_def demo_frame_def
      LEARNABLE_def GROUND_TRUTH_def DIFFERENTIATED_def round32_eval)

text \<open>
  Claim C3, amended. Under the L1 loss, for every registered parameter \<open>k\<close> and every raw
  derivative \<open>d\<^sub>k\<close>, NaN and the infinities included: when \<open>delta = observed - target\<close> is zero
  the gradient is exactly \<open>0\<close> and nothing is divided; when \<open>delta\<close> is not zero the gradient
  is \<open>d\<^sub>k * delta / |delta|\<close> in the arithmetic of \<^verbatim>\<open>FAUSTFLOAT\<close>, the divisor not being zero;
  and this is \<open>d\<^sub>k * sign(delta)\<close> whenever \<open>d\<^sub>k\<close> and the product \<open>d\<^sub>k * delta\<close> are numbers of
  the type, so that the product neither overflows nor is rounded.
\<close>

theorem l1_gradient:
  assumes "kLossFunction K = L1_NORM" and "k < length (fLearnableParams st)"
  shows "(let delta = fsub (out LEARNABLE frame) (out GROUND_TRUTH frame);
              d = out (DIFFERENTIATED + k) frame;
              g = p_gradient (snd (fLearnableParams (computeGradient K out frame st) ! k))
          in (iszero delta \<longrightarrow> g = Finite 0) \<and>
             (\<not> iszero delta \<longrightarrow>
                g = fdiv (fmul d delta) (fabsf delta) \<and> \<not> iszero (fabsf delta)) \<and>
             (\<forall>x y. delta = Finite x \<and> x \<noteq> 0 \<and> d = Finite y \<and>
                    round32 y = Finite y \<and> round32 (y * x) = Finite (y * x) \<longrightarrow>
                    g = Finite (y * sgn x)))"
proof -
  let ?delta = "fsub (out LEARNABLE frame) (out GROUND_TRUTH frame)"
  let ?d = "out (DIFFERENTIATED + k) frame"
  let ?g = "p_gradient (snd (fLearnableParams (computeGradient K out frame st) ! k))"
  have g: "?g = (if iszero ?delta then Finite 0 else fdiv (fmul ?d ?delta) (fabsf ?delta))"
    using computeGradient_nth [OF assms(2), of K out frame] assms(1)
    by (simp add: gradient_of_def)
  have a: "iszero ?delta \<longrightarrow> ?g = Finite 0" by (simp add: g)
  have b: "\<not> iszero ?delta \<longrightarrow>
      ?g = fdiv (fmul ?d ?delta) (fabsf ?delta) \<and> \<not> iszero (fabsf ?delta)"
    by (cases ?delta) (simp_all add: g)
  have c: "\<forall>x y. ?delta = Finite x \<and> x \<noteq> 0 \<and> ?d = Finite y \<and>
      round32 y = Finite y \<and> round32 (y * x) = Finite (y * x) \<longrightarrow> ?g = Finite (y * sgn x)"
  proof (intro allI impI)
    fix x y
    assume h: "?delta = Finite x \<and> x \<noteq> 0 \<and> ?d = Finite y \<and>
      round32 y = Finite y \<and> round32 (y * x) = Finite (y * x)"
    then have "?g = fdiv (fmul (Finite y) (Finite x)) (fabsf (Finite x))" by (simp add: g)
    also have "\<dots> = Finite (y * sgn x)" using h by (intro l1_exact) simp_all
    finally show "?g = Finite (y * sgn x)" .
  qed
  from a b c show ?thesis by (simp add: Let_def)
qed

theorem l1_gradient_witness:
  "p_gradient (snd (fLearnableParams
      (computeGradient (demo_constants L1_NORM (Finite (1/8)) 10)
         (demo_frame (Finite (1/2)) (Finite (1/2)) NaN) 0 (demo_object 4 (1/4))) ! 0)) =
     Finite 0 \<and>
   p_gradient (snd (fLearnableParams
      (computeGradient (demo_constants L1_NORM (Finite (1/8)) 10)
         (demo_frame (Finite (1/2)) (Finite (1/4)) (Finite 3)) 0 (demo_object 4 (1/4))) ! 0)) =
     Finite (- 3)"
proof -
  let ?K = "demo_constants L1_NORM (Finite (1/8)) 10"
  let ?st = "demo_object 4 (1/4)"
  have a: "kLossFunction ?K = L1_NORM" by (simp add: demo_constants_def)
  have b: "0 < length (fLearnableParams ?st)" by (simp add: demo_object_params)
  from l1_gradient [of ?K 0 ?st "demo_frame (Finite (1/2)) (Finite (1/2)) NaN" 0, OF a b]
    l1_gradient [of ?K 0 ?st "demo_frame (Finite (1/2)) (Finite (1/4)) (Finite 3)" 0, OF a b]
  show ?thesis
    by (simp add: Let_def demo_frame_def LEARNABLE_def GROUND_TRUTH_def DIFFERENTIATED_def
        round32_eval)
qed

text \<open>
  Claim C2. On every processed frame: if the loss is greater than \<^verbatim>\<open>kEpsilon\<close>, the counter
  becomes \<open>0\<close>, every registered parameter gets the gradient of its derivative channel and
  the value \<open>value - alpha * gradient\<close>, and the new values are written to the external
  graph with \<^verbatim>\<open>setParamValue\<close>, in registry order; if the loss is at most \<^verbatim>\<open>kEpsilon\<close>, the
  registry (values and stored gradients) and the external graph are left as they were and
  the counter grows by one.
\<close>

theorem frame_effect:
  assumes "frameBody E K i out frame c st = (c', st')"
  shows "fLoss st' = fLoss (computeLoss K out frame st) \<and>
         (fgt (fLoss st') (kEpsilon K) \<longrightarrow>
            c' = 0 \<and>
            length (fLearnableParams st') = length (fLearnableParams st) \<and>
            (\<forall>k<length (fLearnableParams st).
               fst (fLearnableParams st' ! k) = fst (fLearnableParams st ! k) \<and>
               p_gradient (snd (fLearnableParams st' ! k)) =
                 gradient_of (kLossFunction K) (out (DIFFERENTIATED + k) frame)
                   (fsub (out LEARNABLE frame) (out GROUND_TRUTH frame)) \<and>
               p_value (snd (fLearnableParams st' ! k)) =
                 fsub (p_value (snd (fLearnableParams st ! k)))
                   (fmul (kAlpha K) (p_gradient (snd (fLearnableParams st' ! k))))) \<and>
            fDSP st' =
              fold (\<lambda>(a, p). setParamValue E a (p_value p)) (fLearnableParams st') (fDSP st)) \<and>
         (fle (fLoss st') (kEpsilon K) \<longrightarrow>
            c' = c + 1 \<and> fLearnableParams st' = fLearnableParams st \<and> fDSP st' = fDSP st)"
proof -
  have len: "fgt (fLoss st') (kEpsilon K) \<Longrightarrow>
      length (fLearnableParams st') = length (fLearnableParams st)"
    using frameBody_above [OF assms] by (simp add: updateLoop_params)
  show ?thesis
    using frameBody_loss [OF assms] frameBody_above [OF assms] frameBody_above_nth [OF assms]
      frameBody_below [OF assms] fle_not_fgt [of "fLoss st'" "kEpsilon K"] len
    by blast
qed

theorem frame_effect_witness:
  "(let r = frameBody (demo_env 4) (demo_constants L2_NORM (Finite (1/8)) 10) 1
              (demo_frame (Finite (1/2)) (Finite 1) (Finite 1)) 0 7 (demo_object 4 (1/4))
    in fst r = 0 \<and>
       fLearnableParams (snd r) =
         [(''/demo/gain'', \<lparr>p_value = Finite (1/8), p_gradient = Finite 1\<rparr>)] \<and>
       fDSP (snd r) = \<lparr>zone = Finite (1/8), block = Finite 0\<rparr>) \<and>
   (let r = frameBody (demo_env 4) (demo_constants L2_NORM (Finite (1/8)) 10) 1
              (demo_frame (Finite (1/2)) (Finite (1/2)) (Finite 1)) 0 7 (demo_object 4 (1/4))
    in fst r = 8 \<and>
       fLearnableParams (snd r) = fLearnableParams (demo_object 4 (1/4)) \<and>
       fDSP (snd r) = fDSP (demo_object 4 (1/4)))"
proof -
  let ?E = "demo_env 4" and ?K = "demo_constants L2_NORM (Finite (1/8)) 10"
  let ?st = "demo_object 4 (1/4)"
  let ?hi = "demo_frame (Finite (1/2)) (Finite 1) (Finite 1)"
  let ?lo = "demo_frame (Finite (1/2)) (Finite (1/2)) (Finite 1)"
  let ?a = "frameBody ?E ?K 1 ?hi 0 7 ?st" and ?b = "frameBody ?E ?K 1 ?lo 0 7 ?st"
  have a: "?a = (fst ?a, snd ?a)" and b: "?b = (fst ?b, snd ?b)" by simp_all
  have la: "fLoss (computeLoss ?K ?hi 0 ?st) = Finite (1/4)"
    and lb: "fLoss (computeLoss ?K ?lo 0 ?st) = Finite 0"
    by (simp_all add: computeLoss_def demo_constants_def demo_frame_def LEARNABLE_def
        GROUND_TRUTH_def round32_values)
  have eps: "kEpsilon ?K = Finite (1/1024)" "kAlpha ?K = Finite (1/8)" "kLossFunction ?K = L2_NORM"
    by (simp_all add: demo_constants_def)
  note fa = frame_effect [OF a] and fb = frame_effect [OF b]
  from fa have l1: "fLoss (snd ?a) = Finite (1/4)" by (simp add: la)
  from fb have l2: "fLoss (snd ?b) = Finite 0" by (simp add: lb)
  have above: "fgt (fLoss (snd ?a)) (kEpsilon ?K)" by (simp add: l1 eps)
  have below: "fle (fLoss (snd ?b)) (kEpsilon ?K)" by (simp add: l2 eps)
  from fa above have
    "fst ?a = 0 \<and> length (fLearnableParams (snd ?a)) = 1 \<and>
     fst (fLearnableParams (snd ?a) ! 0) = ''/demo/gain'' \<and>
     p_gradient (snd (fLearnableParams (snd ?a) ! 0)) = Finite 1 \<and>
     p_value (snd (fLearnableParams (snd ?a) ! 0)) = Finite (1/8) \<and>
     fDSP (snd ?a) =
       fold (\<lambda>(a, p). setParamValue ?E a (p_value p)) (fLearnableParams (snd ?a)) (fDSP ?st)"
    by (simp add: eps demo_object_params gradient_of_def demo_frame_def LEARNABLE_def
        GROUND_TRUTH_def DIFFERENTIATED_def round32_values)
  then have A: "fst ?a = 0 \<and>
       fLearnableParams (snd ?a) =
         [(''/demo/gain'', \<lparr>p_value = Finite (1/8), p_gradient = Finite 1\<rparr>)] \<and>
       fDSP (snd ?a) = \<lparr>zone = Finite (1/8), block = Finite 0\<rparr>"
    by (cases "fLearnableParams (snd ?a)")
      (auto simp: demo_object_dsp demo_env_def prod_eq_iff)
  from fb below have B: "fst ?b = 8 \<and>
       fLearnableParams (snd ?b) = fLearnableParams ?st \<and> fDSP (snd ?b) = fDSP ?st"
    by simp
  from A B show ?thesis by (simp add: Let_def)
qed

text \<open>
  Claim C4, as the claim states it, fails in its scenario: neither \<open>0.1\<close> nor \<open>0.3\<close> is a
  \<^verbatim>\<open>FAUSTFLOAT\<close>, and with the floats nearest to them the value after the update is
  \<open>13421774 / 2\<^sup>2\<^sup>6\<close>, which is neither \<open>0.2\<close> nor the float nearest to \<open>0.2\<close>, \<open>13421773 / 2\<^sup>2\<^sup>6\<close>.
\<close>

theorem l2_gradient_update_counterexample:
  "round32 (1 / 10) = Finite (13421773 / 2 ^ 27) \<and>
   round32 (3 / 10) = Finite (10066330 / 2 ^ 25) \<and>
   fgt (fLoss (snd decimal_step)) (Finite (1 / 1024)) \<and>
   p_value (snd (fLearnableParams (snd decimal_step) ! 0)) = Finite (13421774 / 2 ^ 26) \<and>
   p_value (snd (fLearnableParams (snd decimal_step) ! 0)) \<noteq> round32 (1 / 5) \<and>
   p_value (snd (fLearnableParams (snd decimal_step) ! 0)) \<noteq> Finite (1 / 5)"
  by (simp add: decimal_step_def demo_eval demo_frame_def round32_eval)

text \<open>
  Claim C4, amended. Under the L2 loss the gradient of every registered parameter \<open>k\<close> is
  \<open>2 * d\<^sub>k * delta\<close>, and on a frame whose loss is above \<^verbatim>\<open>kEpsilon\<close> the update subtracts
  \<open>alpha * g\<^sub>k\<close> from the parameter's value, all in the arithmetic of \<^verbatim>\<open>FAUSTFLOAT\<close>. In
  particular, with one registered parameter, \<open>alpha\<close> the float nearest to \<open>0.1\<close>,
  \<open>observed = 1.0\<close>, \<open>target = 0.5\<close> and derivative \<open>1.0\<close>, such a frame has \<open>delta = 0.5\<close>,
  loss \<open>0.25\<close>, gradient \<open>1.0\<close>, and a value that was the float nearest to \<open>0.3\<close> becomes
  \<open>13421774 / 2\<^sup>2\<^sup>6\<close>, about \<open>0.20000002\<close>: the float next above the one nearest to \<open>0.2\<close>,
  \<open>2\<^sup>-\<^sup>2\<^sup>6\<close> away from it.
\<close>

theorem l2_gradient_update:
  assumes "kLossFunction K = L2_NORM"
    and "frameBody E K i out frame c st = (c', st')"
    and "fgt (fLoss st') (kEpsilon K)"
  shows "(\<forall>k<length (fLearnableParams st).
            p_gradient (snd (fLearnableParams (computeGradient K out frame st) ! k)) =
              fmul (fmul (Finite 2) (out (DIFFERENTIATED + k) frame))
                (fsub (out LEARNABLE frame) (out GROUND_TRUTH frame)) \<and>
            p_gradient (snd (fLearnableParams st' ! k)) =
              fmul (fmul (Finite 2) (out (DIFFERENTIATED + k) frame))
                (fsub (out LEARNABLE frame) (out GROUND_TRUTH frame)) \<and>
            p_value (snd (fLearnableParams st' ! k)) =
              fsub (p_value (snd (fLearnableParams st ! k)))
                (fmul (kAlpha K) (p_gradient (snd (fLearnableParams st' ! k))))) \<and>
         (kAlpha K = round32 (1 / 10) \<and> out LEARNABLE frame = Finite 1 \<and>
          out GROUND_TRUTH frame = Finite (1 / 2) \<and> out DIFFERENTIATED frame = Finite 1 \<and>
          fLearnableParams st = [(a, \<lparr>p_value = round32 (3 / 10), p_gradient = g\<rparr>)] \<longrightarrow>
            fsub (out LEARNABLE frame) (out GROUND_TRUTH frame) = Finite (1 / 2) \<and>
            fLoss st' = Finite (1 / 4) \<and>
            fLearnableParams st' =
              [(a, \<lparr>p_value = Finite (13421774 / 2 ^ 26), p_gradient = Finite 1\<rparr>)] \<and>
            fsub (Finite (13421774 / 2 ^ 26)) (round32 (1 / 5)) = Finite (1 / 2 ^ 26))"
proof (intro conjI allI impI)
  fix k assume k: "k < length (fLearnableParams st)"
  from computeGradient_nth [OF k, of K out frame] assms(1)
  show "p_gradient (snd (fLearnableParams (computeGradient K out frame st) ! k)) =
      fmul (fmul (Finite 2) (out (DIFFERENTIATED + k) frame))
        (fsub (out LEARNABLE frame) (out GROUND_TRUTH frame))"
    by (simp add: gradient_of_def)
  from frameBody_above_nth [OF assms(2,3) k] assms(1)
  show "p_gradient (snd (fLearnableParams st' ! k)) =
      fmul (fmul (Finite 2) (out (DIFFERENTIATED + k) frame))
        (fsub (out LEARNABLE frame) (out GROUND_TRUTH frame))"
    by (simp add: gradient_of_def)
  from frameBody_above_nth [OF assms(2,3) k]
  show "p_value (snd (fLearnableParams st' ! k)) =
      fsub (p_value (snd (fLearnableParams st ! k)))
        (fmul (kAlpha K) (p_gradient (snd (fLearnableParams st' ! k))))"
    by simp
next
  assume s: "kAlpha K = round32 (1 / 10) \<and> out LEARNABLE frame = Finite 1 \<and>
          out GROUND_TRUTH frame = Finite (1 / 2) \<and> out DIFFERENTIATED frame = Finite 1 \<and>
          fLearnableParams st = [(a, \<lparr>p_value = round32 (3 / 10), p_gradient = g\<rparr>)]"
  then show "fsub (out LEARNABLE frame) (out GROUND_TRUTH frame) = Finite (1 / 2)"
    by (simp add: round32_values)
  from s frameBody_loss [OF assms(2)] assms(1)
  show "fLoss st' = Finite (1 / 4)" by (simp add: computeLoss_def round32_values)
  from s frameBody_above [OF assms(2,3)] assms(1)
  show "fLearnableParams st' =
      [(a, \<lparr>p_value = Finite (13421774 / 2 ^ 26), p_gradient = Finite 1\<rparr>)]"
    by (simp add: updateLoop_params round32_values scenario_update)
  show "fsub (Finite (13421774 / 2 ^ 26)) (round32 (1 / 5)) = Finite (1 / 2 ^ 26)"
    by (rule scenario_gap)
qed

theorem l2_gradient_update_witness:
  "fLoss (snd decimal_step) = Finite (1 / 4) \<and>
   fLearnableParams (snd decimal_step) =
     [(''/demo/gain'', \<lparr>p_value = Finite (13421774 / 2 ^ 26), p_gradient = Finite 1\<rparr>)]"
proof -
  let ?E = "demo_env 4" and ?K = "demo_constants L2_NORM (round32 (1 / 10)) 10"
  let ?st = "demo_object 4 (10066330 / 2 ^ 25)"
  let ?hi = "demo_frame (Finite (1/2)) (Finite 1) (Finite 1)"
  have a: "frameBody ?E ?K 1 ?hi 0 0 ?st = (fst decimal_step, snd decimal_step)"
    by (simp add: decimal_step_def)
  have K: "kLossFunction ?K = L2_NORM" "kEpsilon ?K = Finite (1/1024)"
      "kAlpha ?K = round32 (1 / 10)"
    by (simp_all add: demo_constants_def)
  have "fLoss (snd decimal_step) = fLoss (computeLoss ?K ?hi 0 ?st)"
    by (rule frameBody_loss [OF a])
  then have l: "fLoss (snd decimal_step) = Finite (1/4)"
    by (simp add: computeLoss_def demo_constants_def demo_frame_def LEARNABLE_def
        GROUND_TRUTH_def round32_values)
  have above: "fgt (fLoss (snd decimal_step)) (kEpsilon ?K)" by (simp add: l K(2))
  have p: "fLearnableParams ?st =
      [(''/demo/gain'', \<lparr>p_value = round32 (3 / 10), p_gradient = Finite 0\<rparr>)]"
    by (simp add: demo_object_params round32_eval)
  have f: "?hi LEARNABLE 0 = Finite 1" "?hi GROUND_TRUTH 0 = Finite (1 / 2)"
      "?hi DIFFERENTIATED 0 = Finite 1"
    by (simp_all add: demo_frame_def LEARNABLE_def GROUND_TRUTH_def DIFFERENTIATED_def)
  from l2_gradient_update [OF K(1) a above, of "''/demo/gain''" "Finite 0"] K(3) p f
  show ?thesis by blast
qed

text \<open>
  Claim C6. The \<open>k\<close>-th parameter of the registry (counting from \<open>0\<close>) has its raw
  derivative read from channel \<open>2 + k\<close> of the output frame, in \<^verbatim>\<open>computeGradient\<close> and so on
  every frame on which gradients are computed; and \<^verbatim>\<open>initialise\<close> fills an empty registry in
  the order in which the user interface lists the (distinct) addresses.
\<close>

theorem derivative_channel:
  "(\<forall>k<length (fLearnableParams st).
      fst (fLearnableParams (computeGradient K out frame st) ! k) = fst (fLearnableParams st ! k) \<and>
      p_gradient (snd (fLearnableParams (computeGradient K out frame st) ! k)) =
        gradient_of (kLossFunction K) (out (2 + k) frame) (fsub (out 1 frame) (out 0 frame))) \<and>
   (frameBody E K i out frame c st = (c', st') \<and> fgt (fLoss st') (kEpsilon K) \<longrightarrow>
      (\<forall>k<length (fLearnableParams st).
         fst (fLearnableParams st' ! k) = fst (fLearnableParams st ! k) \<and>
         p_gradient (snd (fLearnableParams st' ! k)) =
           gradient_of (kLossFunction K) (out (2 + k) frame) (fsub (out 1 frame) (out 0 frame)))) \<and>
   (let d = buildGraph E (fInputDSPPath st0) (fGroundTruthDSPPath st0)
              (fDifferentiableDSPPath st0) (fDSP st0)
    in fLearnableParams st0 = [] \<and>
       distinct (map (getParamAddress E d) [0..<getParamsCount E d]) \<longrightarrow>
       map fst (fLearnableParams (initialise E st0)) =
         map (getParamAddress E d) [0..<getParamsCount E d])"
proof (intro conjI)
  show "\<forall>k<length (fLearnableParams st).
      fst (fLearnableParams (computeGradient K out frame st) ! k) = fst (fLearnableParams st ! k) \<and>
      p_gradient (snd (fLearnableParams (computeGradient K out frame st) ! k)) =
        gradient_of (kLossFunction K) (out (2 + k) frame) (fsub (out 1 frame) (out 0 frame))"
    using computeGradient_nth [of _ st K out frame]
    by (simp add: DIFFERENTIATED_def LEARNABLE_def GROUND_TRUTH_def)
  show "frameBody E K i out frame c st = (c', st') \<and> fgt (fLoss st') (kEpsilon K) \<longrightarrow>
      (\<forall>k<length (fLearnableParams st).
         fst (fLearnableParams st' ! k) = fst (fLearnableParams st ! k) \<and>
         p_gradient (snd (fLearnableParams st' ! k)) =
           gradient_of (kLossFunction K) (out (2 + k) frame) (fsub (out 1 frame) (out 0 frame)))"
    using frameBody_above_nth [of E K i out frame c st c' st']
    by (simp add: DIFFERENTIATED_def LEARNABLE_def GROUND_TRUTH_def)
  show "let d = buildGraph E (fInputDSPPath st0) (fGroundTruthDSPPath st0)
              (fDifferentiableDSPPath st0) (fDSP st0)
    in fLearnableParams st0 = [] \<and>
       distinct (map (getParamAddress E d) [0..<getParamsCount E d]) \<longrightarrow>
       map fst (fLearnableParams (initialise E st0)) =
         map (getParamAddress E d) [0..<getParamsCount E d]"
    using registerLoop_fresh [of E _ 0 "[]"]
    by (simp add: Let_def initialise_params)
qed

theorem derivative_channel_witness:
  "map fst (fLearnableParams demo_object2) = [''/demo/bias'', ''/demo/gain''] \<and>
   p_gradient (snd (fLearnableParams
     (computeGradient (demo_constants L2_NORM (Finite (1/8)) 10) channel_number 0 demo_object2)
       ! 0)) = Finite 4 \<and>
   p_gradient (snd (fLearnableParams
     (computeGradient (demo_constants L2_NORM (Finite (1/8)) 10) channel_number 0 demo_object2)
       ! 1)) = Finite 6 \<and>
   p_gradient (snd (fLearnableParams
     (snd (frameBody demo_env2 (demo_constants L2_NORM (Finite (1/8)) 10) 1 channel_number 0 0
        demo_object2)) ! 1)) = Finite 6"
proof -
  let ?K = "demo_constants L2_NORM (Finite (1/8)) 10"
  let ?st0 = "snd (construct demo_declarations ''in.dsp'' ''gt.dsp'' ''diff.dsp'' L2_NORM
               (Finite (1/8)) (Finite (1/1024)) 10 \<lparr>zone = Finite (1/4), block = Finite 0\<rparr> [])"
  let ?r = "frameBody demo_env2 ?K 1 channel_number 0 0 demo_object2"
  have r: "?r = (fst ?r, snd ?r)" by simp
  have K: "kLossFunction ?K = L2_NORM" "kEpsilon ?K = Finite (1/1024)"
    by (simp_all add: demo_constants_def)
  have "fLoss (snd ?r) = fLoss (computeLoss ?K channel_number 0 demo_object2)"
    by (rule frameBody_loss [OF r])
  then have above: "fgt (fLoss (snd ?r)) (kEpsilon ?K)"
    by (simp add: computeLoss_def K channel_number_def LEARNABLE_def GROUND_TRUTH_def
        round32_values)
  note dc = derivative_channel [of demo_object2 ?K channel_number 0 demo_env2 1 0
      "fst ?r" "snd ?r" ?st0]
  have len: "length (fLearnableParams demo_object2) = 2" by (simp add: demo_object2_params)
  from dc have g: "\<forall>k<2. p_gradient (snd (fLearnableParams
        (computeGradient ?K channel_number 0 demo_object2) ! k)) =
      gradient_of L2_NORM (channel_number (2 + k) 0) (fsub (channel_number 1 0) (channel_number 0 0))"
    by (simp add: len K)
  from dc r above have h: "\<forall>k<2. p_gradient (snd (fLearnableParams (snd ?r) ! k)) =
      gradient_of L2_NORM (channel_number (2 + k) 0) (fsub (channel_number 1 0) (channel_number 0 0))"
    by (simp add: len K)
  from dc have i: "map fst (fLearnableParams (initialise demo_env2 ?st0)) =
      [''/demo/bias'', ''/demo/gain'']"
    by (simp add: Let_def construct_def demo_env2_def demo_env_def upt_rec)
  have two: "(1::nat) < 2" "(0::nat) < 2" by simp_all
  from g [rule_format, OF two(1)] g [rule_format, OF two(2)] h [rule_format, OF two(1)] i
  show ?thesis
    by (simp add: gradient_of_def channel_number_def demo_object2_def round32_values)
qed



text \<open>
  Claim C10. The counter starts at zero before the first iteration, and after every
  processed frame it is zero if the frame's loss exceeds \<^verbatim>\<open>kEpsilon\<close> and one more than after
  the frame before otherwise, whether or not the two frames lie in the same rendered block;
  the run converges exactly when the counter has passed \<open>20\<close>. The second run on the small
  graph converges on \<open>21\<close> frames that span six blocks.
\<close>

theorem counter_persists:
  assumes "doGradientDescent E K st = (res, c, st')"
  shows "map position (history st') = take (length (history st')) (schedule E K) \<and>
         (history st' \<noteq> [] \<longrightarrow>
            h_count (history st' ! 0) =
              (if fgt (h_loss (history st' ! 0)) (kEpsilon K) then 0 else 1)) \<and>
         (\<forall>n. Suc n < length (history st') \<longrightarrow>
            h_count (history st' ! Suc n) =
              (if fgt (h_loss (history st' ! Suc n)) (kEpsilon K) then 0
               else h_count (history st' ! n) + 1)) \<and>
         c = last_count 0 (history st') \<and>
         (res = CONVERGED \<longleftrightarrow> 20 < c) \<and>
         fst learning_run = CONVERGED \<and>
         map h_iteration (history (snd (snd learning_run))) =
           [1, 1, 1, 1, 2, 2, 2, 2, 3, 3, 3, 3, 4, 4, 4, 4, 5, 5, 5, 5, 6, 6, 6, 6, 7] \<and>
         map h_count (history (snd (snd learning_run))) =
           [0, 0, 0, 0] @ map int [1..<22]"
proof -
  note rh = run_history [OF assms]
  from rh have cf: "counts_follow (kEpsilon K) 0 (history st')" by blast
  have a: "map position (history st') = take (length (history st')) (schedule E K)"
    using rh by blast
  have b: "history st' \<noteq> [] \<longrightarrow>
            h_count (history st' ! 0) =
              (if fgt (h_loss (history st' ! 0)) (kEpsilon K) then 0 else 1)"
    using counts_follow_first [OF cf] by simp
  have c: "\<forall>n. Suc n < length (history st') \<longrightarrow>
            h_count (history st' ! Suc n) =
              (if fgt (h_loss (history st' ! Suc n)) (kEpsilon K) then 0
               else h_count (history st' ! n) + 1)"
    using counts_follow_nth [OF cf] by blast
  have d: "c = last_count 0 (history st')" using rh by blast
  have e: "res = CONVERGED \<longleftrightarrow> 20 < c"
  proof
    assume "res = CONVERGED"
    with rh d show "20 < c" by (simp add: last_count_def)
  next
    assume big: "20 < c"
    show "res = CONVERGED"
    proof (cases res)
      case EXHAUSTED
      with rh have all: "\<forall>e\<in>set (history st'). h_count e \<le> 20" by blast
      show ?thesis
      proof (cases "history st' = []")
        case True
        with d big show ?thesis by (simp add: last_count_def)
      next
        case False
        then have "last (history st') \<in> set (history st')" by simp
        with all have "h_count (last (history st')) \<le> 20" by blast
        with d big False show ?thesis by (simp add: last_count_def)
      qed
    qed simp
  qed
  have f: "fst learning_run = CONVERGED"
    using learning_run_summary by (simp add: summary_def)
  have g: "map h_iteration (history (snd (snd learning_run))) =
           [1, 1, 1, 1, 2, 2, 2, 2, 3, 3, 3, 3, 4, 4, 4, 4, 5, 5, 5, 5, 6, 6, 6, 6, 7]"
    by (simp add: summary_iterations learning_run_summary)
  have h: "map h_count (history (snd (snd learning_run))) = [0, 0, 0, 0] @ map int [1..<22]"
    by (simp add: summary_counts learning_run_summary one_to_21 del: upt_Suc)
  from a b c d e f g h show ?thesis by blast
qed

theorem counter_persists_witness:
  "h_iteration (history (snd (snd learning_run)) ! 3) = 1 \<and>
   h_iteration (history (snd (snd learning_run)) ! 4) = 2 \<and>
   h_count (history (snd (snd learning_run)) ! 3) = 0 \<and>
   h_count (history (snd (snd learning_run)) ! 4) = 1 \<and>
   h_iteration (history (snd (snd learning_run)) ! 7) = 2 \<and>
   h_iteration (history (snd (snd learning_run)) ! 8) = 3 \<and>
   h_count (history (snd (snd learning_run)) ! 8) =
     h_count (history (snd (snd learning_run)) ! 7) + 1 \<and>
   fst (snd learning_run) = 21 \<and> fst learning_run = CONVERGED"
proof -
  let ?E = "demo_env 4" and ?K = "demo_constants L2_NORM (Finite (1/8)) 10"
  let ?H = "history (snd (snd learning_run))"
  have run: "doGradientDescent ?E ?K (demo_object 4 (1/4)) =
      (fst learning_run, fst (snd learning_run), snd (snd learning_run))"
    by (simp add: learning_run_def)
  note cp = counter_persists [OF run]
  have len: "length ?H = 25"
    using arg_cong [OF summary_losses [of learning_run], of length]
    by (simp add: learning_run_summary)
  have nth: "n < 25 \<Longrightarrow> h_loss (?H ! n) = map h_loss ?H ! n"
      "n < 25 \<Longrightarrow> h_iteration (?H ! n) = map h_iteration ?H ! n" for n
    by (simp_all add: len)
  have l4: "h_loss (?H ! 4) = Finite 0" and l8: "h_loss (?H ! 8) = Finite 0"
    and l3: "h_loss (?H ! 3) = Finite (1/16)"
    by (simp_all add: nth summary_losses learning_run_summary)
  have i: "h_iteration (?H ! 3) = 1" "h_iteration (?H ! 4) = 2"
      "h_iteration (?H ! 7) = 2" "h_iteration (?H ! 8) = 3"
    by (simp_all add: nth summary_iterations learning_run_summary)
  have eps: "kEpsilon ?K = Finite (1/1024)" by (simp add: demo_constants_def)
  from cp have step: "\<forall>n. Suc n < length ?H \<longrightarrow>
      h_count (?H ! Suc n) =
        (if fgt (h_loss (?H ! Suc n)) (kEpsilon ?K) then 0 else h_count (?H ! n) + 1)"
    by blast
  from step [rule_format, of 2] have c3: "h_count (?H ! 3) = 0"
    by (simp add: len l3 eps)
  from step [rule_format, of 3] have c4: "h_count (?H ! 4) = h_count (?H ! 3) + 1"
    by (simp add: len l4 eps)
  from step [rule_format, of 7] have c8: "h_count (?H ! 8) = h_count (?H ! 7) + 1"
    by (simp add: len l8 eps)
  from cp have conv: "fst learning_run = CONVERGED" by blast
  from cp have "fst (snd learning_run) = last_count 0 ?H" by blast
  moreover from cp have "map h_count ?H = [0, 0, 0, 0] @ map int [1..<22]" by blast
  then have "last (map h_count ?H) = 21" by (simp add: one_to_21 del: upt_Suc)
  then have "h_count (last ?H) = 21" using len by (subst (asm) last_map) auto
  ultimately have c21: "fst (snd learning_run) = 21" using len by (auto simp: last_count_def)
  from i c3 c4 c8 c21 conv show ?thesis by simp
qed

text \<open>
  Claim C7. After \<^verbatim>\<open>initialise\<close> and \<^verbatim>\<open>doGradientDescent\<close> the text of the CSV file is a
  table: a header line with the cells \<^verbatim>\<open>iteration\<close>, \<^verbatim>\<open>loss\<close> and, for each of the \<open>N\<close>
  registered parameters in registry order, \<^verbatim>\<open>gradient_<label>\<close> and \<^verbatim>\<open><label>\<close>, which are
  \<open>2 + 2 * N\<close> cells (separated by \<open>1 + 2 * N\<close> commas when no label contains a comma), and
  then one line per processed frame, in the order of processing, with the iteration, the
  loss and the gradient and value of each registered parameter, \<open>2 + 2 * N\<close> cells again.
  The processed frames are an initial segment of the schedule, so there are at most
  \<^verbatim>\<open>kNumIterations\<close> times the buffer size of them.
\<close>

theorem csv_output:
  assumes "doGradientDescent E K (initialise E st0) = (res, c, st')"
  shows "stream_text fi ff (fFile st') =
           csv_text (header_cells (fLearnableParams (initialise E st0)) #
                     map (row_cells fi ff) (history st')) \<and>
         length (header_cells (fLearnableParams (initialise E st0))) =
           2 + 2 * length (fLearnableParams (initialise E st0)) \<and>
         ((\<forall>a\<in>fst ` set (fLearnableParams (initialise E st0)). CHR '','' \<notin> set (label a)) \<longrightarrow>
            commas (join_commas (header_cells (fLearnableParams (initialise E st0)))) =
              1 + 2 * length (fLearnableParams (initialise E st0))) \<and>
         (\<forall>e\<in>set (history st').
            length (row_cells fi ff e) = 2 + 2 * length (fLearnableParams (initialise E st0)) \<and>
            map fst (h_params e) = map fst (fLearnableParams (initialise E st0))) \<and>
         map position (history st') = take (length (history st')) (schedule E K) \<and>
         length (history st') \<le> nat (kNumIterations K) * getBufferSize E"
proof -
  let ?reg = "fLearnableParams (initialise E st0)"
  note rh = run_history [OF assms]
  from rh have written: "fFile st' = fFile (initialise E st0) @ concat (map row_toks (history st'))"
    by blast
  have a: "stream_text fi ff (fFile st') =
      csv_text (header_cells ?reg # map (row_cells fi ff) (history st'))"
    by (simp add: written initialise_file stream_text_concat header_text csv_text_def comp_def
        row_text)
  have b: "length (header_cells ?reg) = 2 + 2 * length ?reg" by (rule length_header_cells)
  have b': "(\<forall>a\<in>fst ` set ?reg. CHR '','' \<notin> set (label a)) \<longrightarrow>
      commas (join_commas (header_cells ?reg)) = 1 + 2 * length ?reg"
  proof
    assume "\<forall>a\<in>fst ` set ?reg. CHR '','' \<notin> set (label a)"
    then have "\<forall>c\<in>set (header_cells ?reg). CHR '','' \<notin> set c" by (rule header_cells_free)
    moreover have "header_cells ?reg \<noteq> []" by (simp add: header_cells_def)
    ultimately have "commas (join_commas (header_cells ?reg)) = length (header_cells ?reg) - 1"
      by (rule commas_join)
    then show "commas (join_commas (header_cells ?reg)) = 1 + 2 * length ?reg"
      by (simp add: b)
  qed
  from rh have names: "\<forall>e\<in>set (history st'). map fst (h_params e) = map fst ?reg" by blast
  have c: "\<forall>e\<in>set (history st').
      length (row_cells fi ff e) = 2 + 2 * length ?reg \<and> map fst (h_params e) = map fst ?reg"
  proof
    fix e assume e: "e \<in> set (history st')"
    with names have n: "map fst (h_params e) = map fst ?reg" by blast
    then have "length (h_params e) = length ?reg" by (rule map_eq_imp_length_eq)
    with n show "length (row_cells fi ff e) = 2 + 2 * length ?reg \<and>
        map fst (h_params e) = map fst ?reg"
      by (simp add: length_row_cells)
  qed
  from rh have d: "map position (history st') = take (length (history st')) (schedule E K)"
    by blast
  from rh have "length (history st') \<le> length (schedule E K)" by blast
  then have e: "length (history st') \<le> nat (kNumIterations K) * getBufferSize E"
    by (simp add: length_schedule)
  from a b b' c d e show ?thesis by blast
qed

theorem csv_output_witness:
  "stream_text demo_fi demo_ff (fFile (snd (snd short_run))) =
     ''iteration,loss,gradient_gain,gain'' @ newline @
     ''1,0.0625,-0.5,0.3125'' @ newline @
     ''1,0.0625,-0.5,0.375'' @ newline \<and>
   csv_text (header_cells (fLearnableParams (demo_object 2 (1/4))) #
             map (row_cells demo_fi demo_ff) (history (snd (snd short_run)))) =
     ''iteration,loss,gradient_gain,gain'' @ newline @
     ''1,0.0625,-0.5,0.3125'' @ newline @
     ''1,0.0625,-0.5,0.375'' @ newline \<and>
   length (header_cells (fLearnableParams (demo_object 2 (1/4)))) = 4 \<and>
   commas (join_commas (header_cells (fLearnableParams (demo_object 2 (1/4))))) = 3 \<and>
   map (length \<circ> row_cells demo_fi demo_ff) (history (snd (snd short_run))) = [4, 4] \<and>
   length (history (snd (snd short_run))) = 2"
proof -
  let ?E = "demo_env 2" and ?K = "demo_constants L2_NORM (Finite (1/8)) 1"
  let ?st0 = "snd (construct demo_declarations ''in.dsp'' ''gt.dsp'' ''diff.dsp'' L2_NORM
               (Finite (1/8)) (Finite (1/1024)) 10 \<lparr>zone = Finite (1/4), block = Finite 0\<rparr> [])"
  let ?H = "history (snd (snd short_run))"
  have obj: "demo_object 2 (1/4) = initialise ?E ?st0" by (simp add: demo_object_def)
  have run: "doGradientDescent ?E ?K (initialise ?E ?st0) =
      (fst short_run, fst (snd short_run), snd (snd short_run))"
    by (simp add: short_run_def obj)
  note co = csv_output [OF run, of demo_fi demo_ff, folded obj]
  have len: "length ?H = 2"
    using arg_cong [OF summary_losses [of short_run], of length]
    by (simp add: short_run_summary)
  from co have all: "\<forall>e\<in>set ?H. length (row_cells demo_fi demo_ff e) = 4"
    by (simp add: demo_object_params)
  have rows: "map (length \<circ> row_cells demo_fi demo_ff) ?H = [4, 4]"
  proof -
    have "map (length \<circ> row_cells demo_fi demo_ff) ?H = map (\<lambda>e. 4) ?H"
      using all by (intro map_cong) auto
    also have "\<dots> = replicate (length ?H) 4" by (simp add: map_replicate_const)
    finally show ?thesis by (simp add: len numeral_2_eq_2)
  qed
  from co short_run_file have content:
    "csv_text (header_cells (fLearnableParams (demo_object 2 (1/4))) #
             map (row_cells demo_fi demo_ff) ?H) =
     ''iteration,loss,gradient_gain,gain'' @ newline @
     ''1,0.0625,-0.5,0.3125'' @ newline @
     ''1,0.0625,-0.5,0.375'' @ newline"
    by simp
  from co have hc: "length (header_cells (fLearnableParams (demo_object 2 (1/4)))) = 4"
    by (simp add: demo_object_params)
  from co have cm: "commas (join_commas (header_cells (fLearnableParams (demo_object 2 (1/4))))) = 3"
    by (simp add: demo_object_params label_def find_last_of_def)
  from short_run_file content hc cm rows len show ?thesis by blast
qed




text \<open>
  Claim C9. For every command line on which \<^verbatim>\<open>main\<close> gets as far as choosing a loss
  function (there is no \<^verbatim>\<open>--help\<close>, and \<^verbatim>\<open>--input\<close>, \<^verbatim>\<open>--gt\<close> and \<^verbatim>\<open>--diff\<close> are present), the
  optimiser runs with L1 if the value that \<^verbatim>\<open>lopts1\<close> finds for \<^verbatim>\<open>--lossfunction\<close> or \<^verbatim>\<open>-lf\<close>,
  which is the empty string when the option is absent, is the token \<^verbatim>\<open>l1\<close>, and with L2 in
  every other case: for the token \<^verbatim>\<open>l2\<close> and for any other token. No token stops the
  program or adds to its output: \<^verbatim>\<open>main\<close> constructs the optimiser with the chosen loss
  function, initialises and runs it.
\<close>

theorem loss_function_selection:
  "chosen (main E H prog args d) =
     (if isopt E (prog # args) ''--help'' \<or> \<not> isopt E (prog # args) ''--input'' \<or>
         \<not> isopt E (prog # args) ''--gt'' \<or> \<not> isopt E (prog # args) ''--diff''
      then None
      else Some (if lopts1 E (prog # args) ''--lossfunction'' ''-lf'' '''' = ''l1''
                 then L1_NORM else L2_NORM)) \<and>
   (\<not> isopt E (prog # args) ''--help'' \<and> isopt E (prog # args) ''--input'' \<and>
    isopt E (prog # args) ''--gt'' \<and> isopt E (prog # args) ''--diff'' \<longrightarrow>
      main E H prog args d =
        (let argv = prog # args;
             lf = (if lopts1 E argv ''--lossfunction'' ''-lf'' '''' = ''l1''
                   then L1_NORM else L2_NORM);
             (K, st) = construct H (lopts E argv ''--input'' '''') (lopts E argv ''--gt'' '''')
                         (lopts E argv ''--diff'' '''') lf
                         (strtof E (lopts1 E argv ''--learningrate'' ''-lr'' ''0.1''))
                         (default_sensitivity H) (default_numIterations H) d []
         in Ran K (doGradientDescent E K (initialise E st))))"
  by (simp add: main_def Let_def construct_def)

theorem loss_function_selection_witness:
  "chosen (main (demo_env 4) demo_declarations ''autodiff''
     [''--input'', ''in.dsp'', ''--gt'', ''gt.dsp'', ''--diff'', ''diff.dsp'', ''-lf'', ''l1'']
     \<lparr>zone = Finite (1/4), block = Finite 0\<rparr>) = Some L1_NORM \<and>
   chosen (main (demo_env 4) demo_declarations ''autodiff''
     [''--input'', ''in.dsp'', ''--gt'', ''gt.dsp'', ''--diff'', ''diff.dsp'',
      ''--lossfunction'', ''l2'']
     \<lparr>zone = Finite (1/4), block = Finite 0\<rparr>) = Some L2_NORM \<and>
   chosen (main (demo_env 4) demo_declarations ''autodiff''
     [''--input'', ''in.dsp'', ''--gt'', ''gt.dsp'', ''--diff'', ''diff.dsp'', ''-lf'', ''L1'']
     \<lparr>zone = Finite (1/4), block = Finite 0\<rparr>) = Some L2_NORM \<and>
   chosen (main (demo_env 4) demo_declarations ''autodiff''
     [''--input'', ''in.dsp'', ''--gt'', ''gt.dsp'', ''--diff'', ''diff.dsp'']
     \<lparr>zone = Finite (1/4), block = Finite 0\<rparr>) = Some L2_NORM \<and>
   chosen (main (demo_env 4) demo_declarations ''autodiff''
     [''--input'', ''in.dsp'', ''--gt'', ''gt.dsp'', ''-lf'', ''l1'']
     \<lparr>zone = Finite (1/4), block = Finite 0\<rparr>) = None \<and>
   main (demo_env 4) demo_declarations ''autodiff''
     [''--input'', ''in.dsp'', ''--gt'', ''gt.dsp'', ''--diff'', ''diff.dsp'', ''-lf'', ''l1'']
     \<lparr>zone = Finite (1/4), block = Finite 0\<rparr> =
     Ran (demo_constants L1_NORM (Finite (13421773 / 2 ^ 27)) 10)
       (doGradientDescent (demo_env 4) (demo_constants L1_NORM (Finite (13421773 / 2 ^ 27)) 10)
          (initialise (demo_env 4)
             (snd (construct demo_declarations ''in.dsp'' ''gt.dsp'' ''diff.dsp'' L1_NORM
                     (Finite (13421773 / 2 ^ 27)) (Finite (1/1024)) 10
                     \<lparr>zone = Finite (1/4), block = Finite 0\<rparr> []))))"
proof -
  let ?d = "\<lparr>zone = Finite (1/4), block = Finite 0\<rparr>"
  let ?files = "[''--input'', ''in.dsp'', ''--gt'', ''gt.dsp'', ''--diff'', ''diff.dsp'']"
  note both = loss_function_selection [of "demo_env 4" demo_declarations "''autodiff''" _ ?d]
  note sel = both [THEN conjunct1]
  have a: "chosen (main (demo_env 4) demo_declarations ''autodiff''
      (?files @ [''-lf'', ''l1'']) ?d) = Some L1_NORM"
    using sel [of "?files @ [''-lf'', ''l1'']"] by (simp add: demo_env_def)
  have b: "chosen (main (demo_env 4) demo_declarations ''autodiff''
      (?files @ [''--lossfunction'', ''l2'']) ?d) = Some L2_NORM"
    using sel [of "?files @ [''--lossfunction'', ''l2'']"] by (simp add: demo_env_def)
  have c: "chosen (main (demo_env 4) demo_declarations ''autodiff''
      (?files @ [''-lf'', ''L1'']) ?d) = Some L2_NORM"
    using sel [of "?files @ [''-lf'', ''L1'']"] by (simp add: demo_env_def)
  have d: "chosen (main (demo_env 4) demo_declarations ''autodiff'' ?files ?d) = Some L2_NORM"
    using sel [of ?files] by (simp add: demo_env_def)
  have e: "chosen (main (demo_env 4) demo_declarations ''autodiff''
      [''--input'', ''in.dsp'', ''--gt'', ''gt.dsp'', ''-lf'', ''l1''] ?d) = None"
    using sel [of "[''--input'', ''in.dsp'', ''--gt'', ''gt.dsp'', ''-lf'', ''l1'']"]
    by (simp add: demo_env_def)
  have f: "main (demo_env 4) demo_declarations ''autodiff'' (?files @ [''-lf'', ''l1'']) ?d =
      Ran (demo_constants L1_NORM (Finite (13421773 / 2 ^ 27)) 10)
        (doGradientDescent (demo_env 4) (demo_constants L1_NORM (Finite (13421773 / 2 ^ 27)) 10)
           (initialise (demo_env 4)
              (snd (construct demo_declarations ''in.dsp'' ''gt.dsp'' ''diff.dsp'' L1_NORM
                      (Finite (13421773 / 2 ^ 27)) (Finite (1/1024)) 10 ?d []))))"
    using both [of "?files @ [''-lf'', ''l1'']", THEN conjunct2]
    by (simp add: demo_env_def construct_def demo_declarations_def demo_constants_def)
  from a b c d e f show ?thesis by simp
qed

end
